theory Spec2Isabelle
  imports Complex_Main "HOL-Library.AList"
begin

section \<open>JavaScript values\<close>

text \<open>
  The client exchanges JSON with the remote API and handles it as untyped objects
  (\<^verbatim>\<open>Record<string, unknown>\<close>). A value is one of the JavaScript kinds below; an object
  is an association list in insertion order. Numbers are rationals: the client only
  copies them and tests them for zero.
\<close>

datatype jsval =
    JUndefined
  | JNull
  | JBool bool
  | JNum rat
  | JStr string
  | JArr "jsval list"
  | JObj "(string \<times> jsval) list"

type_synonym jsobj = "(string \<times> jsval) list"

text \<open>\<^verbatim>\<open>if (v)\<close>: the truthiness test of JavaScript.\<close>

fun truthy :: "jsval \<Rightarrow> bool" where
  "truthy JUndefined = False"
| "truthy JNull = False"
| "truthy (JBool b) = b"
| "truthy (JNum r) = (r \<noteq> 0)"
| "truthy (JStr s) = (s \<noteq> [])"
| "truthy (JArr xs) = True"
| "truthy (JObj kvs) = True"

fun nullish :: "jsval \<Rightarrow> bool" where
  "nullish JUndefined = True"
| "nullish JNull = True"
| "nullish v = False"

datatype seconds = NaN | Seconds int

text \<open>
  The failures a call can end with. The three classes of \<^verbatim>\<open>utils/errors.js\<close> carry the
  arguments the client passes to their constructors; \<open>Error\<close> is the plain error of
  the credential resolver; the others are the engine's own errors, with a description
  of what was read.
\<close>

datatype error =
    Error string
  | AuthenticationError string
  | RateLimitError string seconds
  | CrmApiError string nat
  | TypeError string
  | SyntaxError string
  | FetchFailed string

fun error_message :: "error \<Rightarrow> string" where
  "error_message (Error m) = m"
| "error_message (AuthenticationError m) = m"
| "error_message (RateLimitError m s) = m"
| "error_message (CrmApiError m st) = m"
| "error_message (TypeError m) = m"
| "error_message (SyntaxError m) = m"
| "error_message (FetchFailed m) = m"

text \<open>\<^verbatim>\<open>v.k\<close> on a value that is not null or undefined: an own property of an object,
  undefined on anything else.\<close>

fun get_prop :: "jsval \<Rightarrow> string \<Rightarrow> jsval" where
  "get_prop (JObj kvs) k = (case map_of kvs k of Some v \<Rightarrow> v | None \<Rightarrow> JUndefined)"
| "get_prop v k = JUndefined"

text \<open>\<^verbatim>\<open>v.k\<close> in general: reading a property of null or undefined throws.\<close>

definition property :: "jsval \<Rightarrow> string \<Rightarrow> error + jsval" where
  "property v k =
     (if v = JUndefined then Inl (TypeError (''Cannot read properties of undefined (reading '' @ k @ '')''))
      else if v = JNull then Inl (TypeError (''Cannot read properties of null (reading '' @ k @ '')''))
      else Inr (get_prop v k))"

text \<open>\<^verbatim>\<open>v?.k\<close>: undefined instead of the throw.\<close>

definition opt_chain :: "jsval \<Rightarrow> string \<Rightarrow> jsval" where
  "opt_chain v k = (if nullish v then JUndefined else get_prop v k)"

text \<open>\<^verbatim>\<open>v[0]\<close>: the first element of an array, undefined when there is none.\<close>

fun index0 :: "jsval \<Rightarrow> error + jsval" where
  "index0 JUndefined = Inl (TypeError ''Cannot read properties of undefined (reading 0)'')"
| "index0 JNull = Inl (TypeError ''Cannot read properties of null (reading 0)'')"
| "index0 (JArr []) = Inr JUndefined"
| "index0 (JArr (x # xs)) = Inr x"
| "index0 (JStr []) = Inr JUndefined"
| "index0 (JStr (c # cs)) = Inr (JStr [c])"
| "index0 (JObj kvs) = Inr (get_prop (JObj kvs) ''0'')"
| "index0 v = Inr JUndefined"

text \<open>
  A TypeScript cast (\<^verbatim>\<open>c.Name as string | undefined\<close>) reads a wire value at the type the
  source declares for it. The casts are unchecked; a wire value of another kind is
  outside the declared schema and is read as absent.
\<close>

fun as_string :: "jsval \<Rightarrow> string option" where
  "as_string (JStr s) = Some s"
| "as_string v = None"

fun as_number :: "jsval \<Rightarrow> rat option" where
  "as_number (JNum r) = Some r"
| "as_number v = None"

fun as_boolean :: "jsval \<Rightarrow> bool option" where
  "as_boolean (JBool b) = Some b"
| "as_boolean v = None"

fun as_array :: "jsval \<Rightarrow> jsval list option" where
  "as_array (JArr xs) = Some xs"
| "as_array v = None"

fun as_object :: "jsval \<Rightarrow> jsobj option" where
  "as_object (JObj kvs) = Some kvs"
| "as_object v = None"

text \<open>The JavaScript value of an optional typed field: undefined when the field is unset.\<close>

definition js_string :: "string option \<Rightarrow> jsval" where
  "js_string x = (case x of None \<Rightarrow> JUndefined | Some s \<Rightarrow> JStr s)"

definition js_number :: "rat option \<Rightarrow> jsval" where
  "js_number x = (case x of None \<Rightarrow> JUndefined | Some r \<Rightarrow> JNum r)"

definition js_boolean :: "bool option \<Rightarrow> jsval" where
  "js_boolean x = (case x of None \<Rightarrow> JUndefined | Some b \<Rightarrow> JBool b)"

definition js_array :: "jsval list option \<Rightarrow> jsval" where
  "js_array x = (case x of None \<Rightarrow> JUndefined | Some xs \<Rightarrow> JArr xs)"

definition js_object :: "jsobj option \<Rightarrow> jsval" where
  "js_object x = (case x of None \<Rightarrow> JUndefined | Some kvs \<Rightarrow> JObj kvs)"

section \<open>Transport\<close>

record TenantCredentials =
  accessToken :: string
  tenantId :: string
  baseUrl :: "string option"

text \<open>\<^verbatim>\<open>parseTenantCredentials\<close> reads the credentials from the request headers; a
  missing header gives the empty string. \<^verbatim>\<open>validateCredentials\<close> rejects an empty token
  or tenant identifier.\<close>

definition parseTenantCredentials :: "(string \<Rightarrow> string option) \<Rightarrow> TenantCredentials" where
  "parseTenantCredentials headers =
     \<lparr>accessToken = (case headers ''X-Xero-Access-Token'' of None \<Rightarrow> [] | Some v \<Rightarrow> v),
      tenantId = (case headers ''X-Xero-Tenant-Id'' of None \<Rightarrow> [] | Some v \<Rightarrow> v),
      baseUrl = (case headers ''X-Xero-Base-URL'' of None \<Rightarrow> None
                 | Some v \<Rightarrow> if v \<noteq> [] then Some v else None)\<rparr>"

definition validateCredentials :: "TenantCredentials \<Rightarrow> error + unit" where
  "validateCredentials credentials =
     (if accessToken credentials = []
      then Inl (Error ''Missing X-Xero-Access-Token header. Provide a valid OAuth 2.0 access token.'')
      else if tenantId credentials = []
      then Inl (Error ''Missing X-Xero-Tenant-Id header. Provide a valid Xero tenant ID.'')
      else Inr ())"

definition API_BASE_URL :: string where
  "API_BASE_URL = ''https://api.xero.com/api.xro/2.0''"

record XeroClientImpl =
  credentials :: TenantCredentials
  baseUrl :: string

text \<open>The constructor: \<^verbatim>\<open>this.baseUrl = credentials.baseUrl || API_BASE_URL\<close>.\<close>

definition createXeroClient :: "TenantCredentials \<Rightarrow> XeroClientImpl" where
  "createXeroClient creds =
     \<lparr>credentials = creds,
      baseUrl = (case TenantCredentials.baseUrl creds of
                   None \<Rightarrow> API_BASE_URL
                 | Some u \<Rightarrow> if u \<noteq> [] then u else API_BASE_URL)\<rparr>"

text \<open>
  The second argument of \<^verbatim>\<open>request\<close>. The body is \<^verbatim>\<open>JSON.stringify(...)\<close> of a
  value; the model keeps the JSON document that text denotes.
\<close>

record RequestInit =
  httpMethod :: "string option"
  body :: "jsval option"

record HttpRequest =
  url :: string
  httpMethod :: "string option"
  headers :: "(string \<times> string) list"
  body :: "jsval option"

text \<open>
  What the client observes of a response: the status, \<^verbatim>\<open>headers.get\<close>, the result of
  \<^verbatim>\<open>JSON.parse(await response.text())\<close> at the shape the error branch declares for it
  (\<open>None\<close> when the parse throws), and the result of \<^verbatim>\<open>response.json()\<close> (\<open>None\<close> when it
  rejects).
\<close>

record ValidationError =
  Message :: "string option"

record ErrorElement =
  ValidationErrors :: "ValidationError list option"

record ErrorJson =
  Message :: "string option"
  Elements :: "ErrorElement list option"

record HttpResponse =
  status :: nat
  headers_get :: "string \<Rightarrow> string option"
  text_json :: "ErrorJson option"
  json :: "jsval option"

datatype fetch_result = Rejected string | Responded HttpResponse

text \<open>The remote side: what \<^verbatim>\<open>fetch\<close> resolves to for a request.\<close>

type_synonym remote = "HttpRequest \<Rightarrow> fetch_result"

definition ok :: "HttpResponse \<Rightarrow> bool" where
  "ok response = (200 \<le> status response \<and> status response \<le> 299)"

subsection \<open>Number parsing and printing\<close>

definition is_white :: "char \<Rightarrow> bool" where
  "is_white c = (c \<in> set [CHR 0x09, CHR 0x0A, CHR 0x0B, CHR 0x0C, CHR 0x0D, CHR 0x20, CHR 0xA0])"

definition is_digit :: "char \<Rightarrow> bool" where
  "is_digit c = (c \<in> set ''0123456789'')"

definition digit_value :: "char \<Rightarrow> int" where
  "digit_value c = int (of_char c) - 48"

text \<open>\<^verbatim>\<open>parseInt(s, 10)\<close>: leading white space, a sign, then the longest run of decimal
  digits; NaN when there is no digit.\<close>

definition parseInt :: "string \<Rightarrow> seconds" where
  "parseInt s =
     (let s1 = dropWhile is_white s;
          neg = (case s1 of c # r \<Rightarrow> c = CHR ''-'' | [] \<Rightarrow> False);
          s2 = (case s1 of c # r \<Rightarrow> (if c = CHR ''-'' \<or> c = CHR ''+'' then r else s1) | [] \<Rightarrow> s1);
          ds = takeWhile is_digit s2;
          n = foldl (\<lambda>a c. 10 * a + digit_value c) 0 ds
      in if ds = [] then NaN else Seconds (if neg then - n else n))"

definition digit_char :: "nat \<Rightarrow> char" where
  "digit_char d = ''0123456789'' ! d"

fun string_of_nat :: "nat \<Rightarrow> string" where
  "string_of_nat n = (if n < 10 then [digit_char n] else string_of_nat (n div 10) @ [digit_char (n mod 10)])"

declare string_of_nat.simps [simp del]

subsection \<open>The request helper\<close>

definition getAuthHeaders :: "XeroClientImpl \<Rightarrow> error + (string \<times> string) list" where
  "getAuthHeaders this =
     (if accessToken (credentials this) = []
      then Inl (AuthenticationError ''No access token provided. Include X-Xero-Access-Token header.'')
      else if tenantId (credentials this) = []
      then Inl (AuthenticationError ''No tenant ID provided. Include X-Xero-Tenant-Id header.'')
      else Inr [(''Authorization'', ''Bearer '' @ accessToken (credentials this)),
                (''Xero-Tenant-Id'', tenantId (credentials this)),
                (''Content-Type'', ''application/json''),
                (''Accept'', ''application/json'')])"

text \<open>\<^verbatim>\<open>xs.join(sep)\<close> on strings. \<open>text_of\<close> is the text of a string that is known to be
  set; an undefined entry of a joined array counts as the empty string.\<close>

fun join :: "string \<Rightarrow> string list \<Rightarrow> string" where
  "join sep [] = []"
| "join sep [x] = x"
| "join sep (x # y # ys) = x @ sep @ join sep (y # ys)"

definition text_of :: "string option \<Rightarrow> string" where
  "text_of m = (case m of None \<Rightarrow> [] | Some s \<Rightarrow> s)"

text \<open>\<^verbatim>\<open>e.ValidationErrors?.length\<close> as a condition.\<close>

definition has_validation_errors :: "ErrorElement \<Rightarrow> bool" where
  "has_validation_errors e = (case ValidationErrors e of None \<Rightarrow> False | Some vs \<Rightarrow> vs \<noteq> [])"

text \<open>\<^verbatim>\<open>e.ValidationErrors?.map(v => v.Message) || []\<close>.\<close>

definition element_messages :: "ErrorElement \<Rightarrow> string option list" where
  "element_messages e = (case ValidationErrors e of None \<Rightarrow> [] | Some vs \<Rightarrow> map ValidationError.Message vs)"

text \<open>The message of the \<^verbatim>\<open>CrmApiError\<close> thrown for a response that is not ok.\<close>

definition api_error_message :: "HttpResponse \<Rightarrow> string" where
  "api_error_message response =
     (let message = ''Xero API error: '' @ string_of_nat (status response) in
      case text_json response of
        None \<Rightarrow> message
      | Some errorJson \<Rightarrow>
          if truthy (js_string (ErrorJson.Message errorJson)) then text_of (ErrorJson.Message errorJson)
          else (case Elements errorJson of
                  None \<Rightarrow> message
                | Some elements \<Rightarrow>
                    let validationErrors = concat (map element_messages (filter has_validation_errors elements))
                    in if validationErrors \<noteq> [] then join ''; '' (map text_of validationErrors)
                       else message))"

definition request :: "XeroClientImpl \<Rightarrow> remote \<Rightarrow> string \<Rightarrow> RequestInit \<Rightarrow> (error + jsval) \<times> HttpRequest list" where
  "request this remote endpoint options =
     (case getAuthHeaders this of
        Inl e \<Rightarrow> (Inl e, [])
      | Inr hs \<Rightarrow>
          let req = \<lparr>url = XeroClientImpl.baseUrl this @ endpoint, httpMethod = RequestInit.httpMethod options,
                     headers = hs, body = RequestInit.body options\<rparr>
          in (case remote req of
                Rejected reason \<Rightarrow> (Inl (FetchFailed reason), [req])
              | Responded response \<Rightarrow>
                  (if status response = 429
                   then Inl (RateLimitError ''Rate limit exceeded''
                          (case headers_get response ''Retry-After'' of
                             None \<Rightarrow> Seconds 60
                           | Some retryAfter \<Rightarrow> if retryAfter \<noteq> [] then parseInt retryAfter else Seconds 60))
                   else if status response = 401
                   then Inl (AuthenticationError ''Invalid or expired access token'')
                   else if status response = 403
                   then Inl (AuthenticationError ''Access forbidden. Check tenant ID and permissions.'')
                   else if \<not> ok response
                   then Inl (CrmApiError (api_error_message response) (status response))
                   else if status response = 204
                   then Inr JUndefined
                   else (case json response of
                           None \<Rightarrow> Inl (SyntaxError ''Unexpected token in JSON'')
                         | Some v \<Rightarrow> Inr v),
                   [req])))"

definition GET :: RequestInit where
  "GET = \<lparr>RequestInit.httpMethod = None, body = None\<rparr>"


section \<open>Entity mapper\<close>

text \<open>
  A \<^verbatim>\<open>toWire\<close> function starts from an empty object and runs a sequence of guarded
  assignments \<^verbatim>\<open>if (cond) result.Key = value\<close>. An assignment is the triple of its
  condition, key and value; \<open>exec\<close> runs them in order.
\<close>

type_synonym assignment = "bool \<times> string \<times> jsval"

fun exec :: "(bool \<times> string \<times> 'v) list \<Rightarrow> (string \<times> 'v) list \<Rightarrow> (string \<times> 'v) list" where
  "exec [] result = result"
| "exec ((cond, k, v) # rest) result = exec rest (if cond then AList.update k v result else result)"

text \<open>The keys the assignments write, and the first assignment to a key with its
  condition (the only one when no key is assigned twice).\<close>

fun assigned_keys :: "(bool \<times> string \<times> 'v) list \<Rightarrow> string set" where
  "assigned_keys [] = {}"
| "assigned_keys ((cond, k, v) # rest) = (if cond then {k} else {}) \<union> assigned_keys rest"

fun key_of :: "bool \<times> string \<times> 'v \<Rightarrow> string" where
  "key_of (cond, k, v) = k"

fun first_assigned :: "(bool \<times> string \<times> 'v) list \<Rightarrow> string \<Rightarrow> (bool \<times> 'v) option" where
  "first_assigned [] k = None"
| "first_assigned ((cond, k', v) # rest) k = (if k' = k then Some (cond, v) else first_assigned rest k)"

text \<open>\<^verbatim>\<open>if (x.f) result.K = x.f\<close> and \<^verbatim>\<open>if (x.f !== undefined) result.K = x.f\<close>.\<close>

text \<open>An optional field is set: it is not undefined.\<close>

definition is_set :: "'a option \<Rightarrow> bool" where
  "is_set x = (x \<noteq> None)"

definition if_truthy :: "string \<Rightarrow> jsval \<Rightarrow> assignment" where
  "if_truthy k v = (truthy v, k, v)"

definition if_defined :: "string \<Rightarrow> jsval \<Rightarrow> assignment" where
  "if_defined k v = (v \<noteq> JUndefined, k, v)"

text \<open>\<^verbatim>\<open>xs.map(f)\<close> with a callback that may throw: the first throw ends the loop.\<close>

fun map_err :: "('a \<Rightarrow> error + 'b) \<Rightarrow> 'a list \<Rightarrow> error + 'b list" where
  "map_err f [] = Inr []"
| "map_err f (x # xs) =
     (case f x of
        Inl e \<Rightarrow> Inl e
      | Inr y \<Rightarrow> (case map_err f xs of Inl e \<Rightarrow> Inl e | Inr ys \<Rightarrow> Inr (y # ys)))"

text \<open>\<^verbatim>\<open>v.map(f)\<close> on a decoded value: only an array has the method.\<close>

definition array_map :: "(jsval \<Rightarrow> error + 'b) \<Rightarrow> jsval \<Rightarrow> error + 'b list" where
  "array_map f v =
     (case v of
        JUndefined \<Rightarrow> Inl (TypeError ''Cannot read properties of undefined (reading map)'')
      | JNull \<Rightarrow> Inl (TypeError ''Cannot read properties of null (reading map)'')
      | JArr xs \<Rightarrow> map_err f xs
      | _ \<Rightarrow> Inl (TypeError ''map is not a function''))"

text \<open>
  The records below hold the fields of the TypeScript interfaces that the mappers read
  or write. Every field is optional, as in \<^verbatim>\<open>Partial<...>\<close> and as a decoded wire
  record leaves it. Fields that the mappers pass through unchanged (addresses, phones,
  tracking, ...) keep their wire value.
\<close>

subsection \<open>Contacts\<close>

record XeroContact =
  contactId :: "string option"
  contactNumber :: "string option"
  accountNumber :: "string option"
  contactStatus :: "string option"
  name :: "string option"
  firstName :: "string option"
  lastName :: "string option"
  emailAddress :: "string option"
  bankAccountDetails :: "string option"
  taxNumber :: "string option"
  accountsReceivableTaxType :: "string option"
  accountsPayableTaxType :: "string option"
  isSupplier :: "bool option"
  isCustomer :: "bool option"
  defaultCurrency :: "string option"
  updatedDateUtc :: "string option"
  hasAttachments :: "bool option"
  hasValidationErrors :: "bool option"
  addresses :: "jsval list option"
  phones :: "jsval list option"
  contactPersons :: "jsval list option"
  balances :: "jsobj option"
  paymentTerms :: "jsobj option"
  contactGroups :: "jsval list option"

definition mapContact :: "jsval \<Rightarrow> error + XeroContact" where
  "mapContact c =
     (case property c ''ContactID'' of
        Inl e \<Rightarrow> Inl e
      | Inr ContactID \<Rightarrow> Inr
         \<lparr>contactId = as_string ContactID,
          contactNumber = as_string (get_prop c ''ContactNumber''),
          accountNumber = as_string (get_prop c ''AccountNumber''),
          contactStatus = as_string (get_prop c ''ContactStatus''),
          name = as_string (get_prop c ''Name''),
          firstName = as_string (get_prop c ''FirstName''),
          lastName = as_string (get_prop c ''LastName''),
          emailAddress = as_string (get_prop c ''EmailAddress''),
          bankAccountDetails = as_string (get_prop c ''BankAccountDetails''),
          taxNumber = as_string (get_prop c ''TaxNumber''),
          accountsReceivableTaxType = as_string (get_prop c ''AccountsReceivableTaxType''),
          accountsPayableTaxType = as_string (get_prop c ''AccountsPayableTaxType''),
          isSupplier = as_boolean (get_prop c ''IsSupplier''),
          isCustomer = as_boolean (get_prop c ''IsCustomer''),
          defaultCurrency = as_string (get_prop c ''DefaultCurrency''),
          updatedDateUtc = as_string (get_prop c ''UpdatedDateUTC''),
          hasAttachments = as_boolean (get_prop c ''HasAttachments''),
          hasValidationErrors = as_boolean (get_prop c ''HasValidationErrors''),
          addresses = as_array (get_prop c ''Addresses''),
          phones = as_array (get_prop c ''Phones''),
          contactPersons = as_array (get_prop c ''ContactPersons''),
          balances = as_object (get_prop c ''Balances''),
          paymentTerms = as_object (get_prop c ''PaymentTerms''),
          contactGroups = as_array (get_prop c ''ContactGroups'')\<rparr>)"

definition mapContactToXero :: "XeroContact \<Rightarrow> jsobj" where
  "mapContactToXero contact = exec
     [if_truthy ''Name'' (js_string (name contact)),
      if_truthy ''FirstName'' (js_string (firstName contact)),
      if_truthy ''LastName'' (js_string (lastName contact)),
      if_truthy ''EmailAddress'' (js_string (emailAddress contact)),
      if_truthy ''ContactNumber'' (js_string (contactNumber contact)),
      if_truthy ''AccountNumber'' (js_string (accountNumber contact)),
      if_truthy ''ContactStatus'' (js_string (contactStatus contact)),
      if_truthy ''BankAccountDetails'' (js_string (bankAccountDetails contact)),
      if_truthy ''TaxNumber'' (js_string (taxNumber contact)),
      if_truthy ''AccountsReceivableTaxType'' (js_string (accountsReceivableTaxType contact)),
      if_truthy ''AccountsPayableTaxType'' (js_string (accountsPayableTaxType contact)),
      if_defined ''IsSupplier'' (js_boolean (isSupplier contact)),
      if_defined ''IsCustomer'' (js_boolean (isCustomer contact)),
      if_truthy ''DefaultCurrency'' (js_string (defaultCurrency contact)),
      if_truthy ''Addresses'' (js_array (addresses contact)),
      if_truthy ''Phones'' (js_array (phones contact)),
      if_truthy ''ContactPersons'' (js_array (contactPersons contact)),
      if_truthy ''PaymentTerms'' (js_object (paymentTerms contact))]
     []"

subsection \<open>Line items and invoices\<close>

record XeroLineItem =
  lineItemId :: "string option"
  description :: "string option"
  quantity :: "rat option"
  unitAmount :: "rat option"
  itemCode :: "string option"
  accountCode :: "string option"
  taxType :: "string option"
  taxAmount :: "rat option"
  lineAmount :: "rat option"
  discountRate :: "rat option"
  discountAmount :: "rat option"
  tracking :: "jsval list option"

definition mapLineItem :: "jsval \<Rightarrow> error + XeroLineItem" where
  "mapLineItem li =
     (case property li ''LineItemID'' of
        Inl e \<Rightarrow> Inl e
      | Inr LineItemID \<Rightarrow> Inr
         \<lparr>lineItemId = as_string LineItemID,
          description = as_string (get_prop li ''Description''),
          quantity = as_number (get_prop li ''Quantity''),
          unitAmount = as_number (get_prop li ''UnitAmount''),
          itemCode = as_string (get_prop li ''ItemCode''),
          accountCode = as_string (get_prop li ''AccountCode''),
          taxType = as_string (get_prop li ''TaxType''),
          taxAmount = as_number (get_prop li ''TaxAmount''),
          lineAmount = as_number (get_prop li ''LineAmount''),
          discountRate = as_number (get_prop li ''DiscountRate''),
          discountAmount = as_number (get_prop li ''DiscountAmount''),
          tracking = as_array (get_prop li ''Tracking'')\<rparr>)"

text \<open>
  \<^verbatim>\<open>(x.LineItems as Array | undefined)?.map(this.mapLineItem)\<close>. The argument
  \<^verbatim>\<open>this.mapLineItem\<close> is evaluated when the line items are not null or undefined, and
  reading it throws when the enclosing mapper was called without its receiver
  (\<open>this = None\<close>; see \<open>listInvoices\<close>).
\<close>

definition mapLineItems :: "XeroClientImpl option \<Rightarrow> jsval \<Rightarrow> error + XeroLineItem list option" where
  "mapLineItems this v =
     (if nullish v then Inr None
      else if this = None
      then Inl (TypeError ''Cannot read properties of undefined (reading mapLineItem)'')
      else (case array_map mapLineItem v of Inl e \<Rightarrow> Inl e | Inr lis \<Rightarrow> Inr (Some lis)))"

record ContactRef =
  contactId :: "string option"
  name :: "string option"

record XeroInvoice =
  invoiceId :: "string option"
  invoiceNumber :: "string option"
  reference :: "string option"
  type :: "string option"
  status :: "string option"
  lineAmountTypes :: "string option"
  contact :: "ContactRef option"
  date :: "string option"
  dueDate :: "string option"
  expectedPaymentDate :: "string option"
  plannedPaymentDate :: "string option"
  currencyCode :: "string option"
  currencyRate :: "rat option"
  lineItems :: "XeroLineItem list option"
  subTotal :: "rat option"
  totalTax :: "rat option"
  total :: "rat option"
  totalDiscount :: "rat option"
  amountDue :: "rat option"
  amountPaid :: "rat option"
  amountCredited :: "rat option"
  fullyPaidOnDate :: "string option"
  url :: "string option"
  brandingThemeId :: "string option"
  sentToContact :: "bool option"
  hasAttachments :: "bool option"
  hasErrors :: "bool option"
  updatedDateUtc :: "string option"

definition mapInvoice :: "XeroClientImpl option \<Rightarrow> jsval \<Rightarrow> error + XeroInvoice" where
  "mapInvoice this i =
     (case property i ''Contact'' of
        Inl e \<Rightarrow> Inl e
      | Inr Contact \<Rightarrow>
         (case mapLineItems this (get_prop i ''LineItems'') of
            Inl e \<Rightarrow> Inl e
          | Inr mapped \<Rightarrow> Inr
             \<lparr>invoiceId = as_string (get_prop i ''InvoiceID''),
              invoiceNumber = as_string (get_prop i ''InvoiceNumber''),
              reference = as_string (get_prop i ''Reference''),
              type = as_string (get_prop i ''Type''),
              status = as_string (get_prop i ''Status''),
              lineAmountTypes = as_string (get_prop i ''LineAmountTypes''),
              contact = Some \<lparr>ContactRef.contactId = as_string (opt_chain Contact ''ContactID''),
                              name = as_string (opt_chain Contact ''Name'')\<rparr>,
              date = as_string (get_prop i ''Date''),
              dueDate = as_string (get_prop i ''DueDate''),
              expectedPaymentDate = as_string (get_prop i ''ExpectedPaymentDate''),
              plannedPaymentDate = as_string (get_prop i ''PlannedPaymentDate''),
              currencyCode = as_string (get_prop i ''CurrencyCode''),
              currencyRate = as_number (get_prop i ''CurrencyRate''),
              lineItems = mapped,
              subTotal = as_number (get_prop i ''SubTotal''),
              totalTax = as_number (get_prop i ''TotalTax''),
              total = as_number (get_prop i ''Total''),
              totalDiscount = as_number (get_prop i ''TotalDiscount''),
              amountDue = as_number (get_prop i ''AmountDue''),
              amountPaid = as_number (get_prop i ''AmountPaid''),
              amountCredited = as_number (get_prop i ''AmountCredited''),
              fullyPaidOnDate = as_string (get_prop i ''FullyPaidOnDate''),
              url = as_string (get_prop i ''Url''),
              brandingThemeId = as_string (get_prop i ''BrandingThemeID''),
              sentToContact = as_boolean (get_prop i ''SentToContact''),
              hasAttachments = as_boolean (get_prop i ''HasAttachments''),
              hasErrors = as_boolean (get_prop i ''HasErrors''),
              updatedDateUtc = as_string (get_prop i ''UpdatedDateUTC'')\<rparr>))"

text \<open>\<^verbatim>\<open>{ ContactID: x.contact.contactId }\<close>, built when \<^verbatim>\<open>x.contact\<close> is set.\<close>

definition contact_reference :: "ContactRef option \<Rightarrow> jsval" where
  "contact_reference c =
     (case c of None \<Rightarrow> JUndefined
      | Some r \<Rightarrow> JObj [(''ContactID'', js_string (ContactRef.contactId r))])"

definition invoice_line :: "XeroLineItem \<Rightarrow> jsval" where
  "invoice_line li = JObj
     [(''Description'', js_string (description li)),
      (''Quantity'', js_number (quantity li)),
      (''UnitAmount'', js_number (unitAmount li)),
      (''ItemCode'', js_string (itemCode li)),
      (''AccountCode'', js_string (accountCode li)),
      (''TaxType'', js_string (taxType li)),
      (''DiscountRate'', js_number (discountRate li)),
      (''Tracking'', js_array (tracking li))]"

definition mapInvoiceToXero :: "XeroInvoice \<Rightarrow> jsobj" where
  "mapInvoiceToXero invoice = exec
     [if_truthy ''Type'' (js_string (type invoice)),
      (is_set (contact invoice), ''Contact'', contact_reference (contact invoice)),
      if_truthy ''Date'' (js_string (date invoice)),
      if_truthy ''DueDate'' (js_string (dueDate invoice)),
      if_truthy ''LineAmountTypes'' (js_string (lineAmountTypes invoice)),
      if_truthy ''InvoiceNumber'' (js_string (invoiceNumber invoice)),
      if_truthy ''Reference'' (js_string (reference invoice)),
      if_truthy ''CurrencyCode'' (js_string (currencyCode invoice)),
      if_truthy ''Status'' (js_string (status invoice)),
      if_truthy ''BrandingThemeID'' (js_string (brandingThemeId invoice)),
      (is_set (lineItems invoice), ''LineItems'',
         JArr (map invoice_line (case lineItems invoice of None \<Rightarrow> [] | Some lis \<Rightarrow> lis)))]
     []"


subsection \<open>Payments\<close>

record InvoiceRef =
  invoiceId :: "string option"
  invoiceNumber :: "string option"

record PaymentAccount =
  accountId :: "string option"
  code :: "string option"

record XeroPayment =
  paymentId :: "string option"
  paymentType :: "string option"
  date :: "string option"
  amount :: "rat option"
  currencyRate :: "rat option"
  reference :: "string option"
  isReconciled :: "bool option"
  status :: "string option"
  invoice :: "InvoiceRef option"
  account :: "PaymentAccount option"
  updatedDateUtc :: "string option"

definition mapPayment :: "jsval \<Rightarrow> error + XeroPayment" where
  "mapPayment p =
     (case property p ''Invoice'' of
        Inl e \<Rightarrow> Inl e
      | Inr Invoice \<Rightarrow>
         let Account = get_prop p ''Account'' in Inr
         \<lparr>paymentId = as_string (get_prop p ''PaymentID''),
          paymentType = as_string (get_prop p ''PaymentType''),
          date = as_string (get_prop p ''Date''),
          amount = as_number (get_prop p ''Amount''),
          currencyRate = as_number (get_prop p ''CurrencyRate''),
          reference = as_string (get_prop p ''Reference''),
          isReconciled = as_boolean (get_prop p ''IsReconciled''),
          status = as_string (get_prop p ''Status''),
          invoice = (if truthy Invoice
                     then Some \<lparr>InvoiceRef.invoiceId = as_string (get_prop Invoice ''InvoiceID''),
                                 invoiceNumber = as_string (get_prop Invoice ''InvoiceNumber'')\<rparr>
                     else None),
          account = (if truthy Account
                     then Some \<lparr>PaymentAccount.accountId = as_string (get_prop Account ''AccountID''),
                                 code = as_string (get_prop Account ''Code'')\<rparr>
                     else None),
          updatedDateUtc = as_string (get_prop p ''UpdatedDateUTC'')\<rparr>)"

definition invoice_reference :: "InvoiceRef option \<Rightarrow> jsval" where
  "invoice_reference r =
     (case r of None \<Rightarrow> JUndefined
      | Some i \<Rightarrow> JObj [(''InvoiceID'', js_string (InvoiceRef.invoiceId i))])"

definition payment_account_reference :: "PaymentAccount option \<Rightarrow> jsval" where
  "payment_account_reference r =
     (case r of None \<Rightarrow> JUndefined
      | Some a \<Rightarrow> JObj [(''AccountID'', js_string (PaymentAccount.accountId a))])"

definition mapPaymentToXero :: "XeroPayment \<Rightarrow> jsobj" where
  "mapPaymentToXero payment = exec
     [(is_set (invoice payment), ''Invoice'', invoice_reference (invoice payment)),
      (is_set (account payment), ''Account'', payment_account_reference (account payment)),
      if_truthy ''Date'' (js_string (date payment)),
      if_truthy ''Amount'' (js_number (amount payment)),
      if_truthy ''Reference'' (js_string (reference payment)),
      if_defined ''IsReconciled'' (js_boolean (isReconciled payment))]
     []"

subsection \<open>Items\<close>

record PurchaseDetails =
  unitPrice :: "rat option"
  accountCode :: "string option"
  cogsAccountCode :: "string option"
  taxType :: "string option"

record SalesDetails =
  unitPrice :: "rat option"
  accountCode :: "string option"
  taxType :: "string option"

record XeroItem =
  itemId :: "string option"
  code :: "string option"
  name :: "string option"
  description :: "string option"
  purchaseDescription :: "string option"
  purchaseDetails :: "PurchaseDetails option"
  salesDetails :: "SalesDetails option"
  isTrackedAsInventory :: "bool option"
  inventoryAssetAccountCode :: "string option"
  totalCostPool :: "rat option"
  quantityOnHand :: "rat option"
  isSold :: "bool option"
  isPurchased :: "bool option"
  updatedDateUtc :: "string option"

definition mapItem :: "jsval \<Rightarrow> error + XeroItem" where
  "mapItem i =
     (case property i ''PurchaseDetails'' of
        Inl e \<Rightarrow> Inl e
      | Inr PurchaseDetails \<Rightarrow>
         let SalesDetails = get_prop i ''SalesDetails'' in Inr
         \<lparr>itemId = as_string (get_prop i ''ItemID''),
          code = as_string (get_prop i ''Code''),
          name = as_string (get_prop i ''Name''),
          description = as_string (get_prop i ''Description''),
          purchaseDescription = as_string (get_prop i ''PurchaseDescription''),
          purchaseDetails =
            (if truthy PurchaseDetails
             then Some \<lparr>PurchaseDetails.unitPrice = as_number (get_prop PurchaseDetails ''UnitPrice''),
                         accountCode = as_string (get_prop PurchaseDetails ''AccountCode''),
                         cogsAccountCode = as_string (get_prop PurchaseDetails ''COGSAccountCode''),
                         taxType = as_string (get_prop PurchaseDetails ''TaxType'')\<rparr>
             else None),
          salesDetails =
            (if truthy SalesDetails
             then Some \<lparr>SalesDetails.unitPrice = as_number (get_prop SalesDetails ''UnitPrice''),
                         accountCode = as_string (get_prop SalesDetails ''AccountCode''),
                         taxType = as_string (get_prop SalesDetails ''TaxType'')\<rparr>
             else None),
          isTrackedAsInventory = as_boolean (get_prop i ''IsTrackedAsInventory''),
          inventoryAssetAccountCode = as_string (get_prop i ''InventoryAssetAccountCode''),
          totalCostPool = as_number (get_prop i ''TotalCostPool''),
          quantityOnHand = as_number (get_prop i ''QuantityOnHand''),
          isSold = as_boolean (get_prop i ''IsSold''),
          isPurchased = as_boolean (get_prop i ''IsPurchased''),
          updatedDateUtc = as_string (get_prop i ''UpdatedDateUTC'')\<rparr>)"

definition purchase_details :: "PurchaseDetails option \<Rightarrow> jsval" where
  "purchase_details d =
     (case d of None \<Rightarrow> JUndefined
      | Some pd \<Rightarrow> JObj
         [(''UnitPrice'', js_number (PurchaseDetails.unitPrice pd)),
          (''AccountCode'', js_string (PurchaseDetails.accountCode pd)),
          (''COGSAccountCode'', js_string (cogsAccountCode pd)),
          (''TaxType'', js_string (PurchaseDetails.taxType pd))])"

definition sales_details :: "SalesDetails option \<Rightarrow> jsval" where
  "sales_details d =
     (case d of None \<Rightarrow> JUndefined
      | Some sd \<Rightarrow> JObj
         [(''UnitPrice'', js_number (SalesDetails.unitPrice sd)),
          (''AccountCode'', js_string (SalesDetails.accountCode sd)),
          (''TaxType'', js_string (SalesDetails.taxType sd))])"

definition mapItemToXero :: "XeroItem \<Rightarrow> jsobj" where
  "mapItemToXero item = exec
     [if_truthy ''Code'' (js_string (code item)),
      if_truthy ''Name'' (js_string (name item)),
      if_truthy ''Description'' (js_string (description item)),
      if_truthy ''PurchaseDescription'' (js_string (purchaseDescription item)),
      (is_set (purchaseDetails item), ''PurchaseDetails'', purchase_details (purchaseDetails item)),
      (is_set (salesDetails item), ''SalesDetails'', sales_details (salesDetails item)),
      if_defined ''IsTrackedAsInventory'' (js_boolean (isTrackedAsInventory item)),
      if_truthy ''InventoryAssetAccountCode'' (js_string (inventoryAssetAccountCode item)),
      if_defined ''IsSold'' (js_boolean (isSold item)),
      if_defined ''IsPurchased'' (js_boolean (isPurchased item))]
     []"

subsection \<open>Bank transactions\<close>

record BankAccountRef =
  accountId :: "string option"
  code :: "string option"
  name :: "string option"

record XeroBankTransaction =
  bankTransactionId :: "string option"
  type :: "string option"
  status :: "string option"
  contact :: "ContactRef option"
  date :: "string option"
  lineItems :: "XeroLineItem list option"
  bankAccount :: "BankAccountRef option"
  isReconciled :: "bool option"
  reference :: "string option"
  currencyCode :: "string option"
  currencyRate :: "rat option"
  url :: "string option"
  subTotal :: "rat option"
  totalTax :: "rat option"
  total :: "rat option"
  hasAttachments :: "bool option"
  updatedDateUtc :: "string option"

definition mapBankTransaction :: "XeroClientImpl option \<Rightarrow> jsval \<Rightarrow> error + XeroBankTransaction" where
  "mapBankTransaction this bt =
     (case property bt ''Contact'' of
        Inl e \<Rightarrow> Inl e
      | Inr Contact \<Rightarrow>
         let BankAccount = get_prop bt ''BankAccount'' in
         (case mapLineItems this (get_prop bt ''LineItems'') of
            Inl e \<Rightarrow> Inl e
          | Inr mapped \<Rightarrow> Inr
             \<lparr>bankTransactionId = as_string (get_prop bt ''BankTransactionID''),
              type = as_string (get_prop bt ''Type''),
              status = as_string (get_prop bt ''Status''),
              contact = (if truthy Contact
                         then Some \<lparr>ContactRef.contactId = as_string (get_prop Contact ''ContactID''),
                                     name = as_string (get_prop Contact ''Name'')\<rparr>
                         else None),
              date = as_string (get_prop bt ''Date''),
              lineItems = mapped,
              bankAccount = Some \<lparr>BankAccountRef.accountId = as_string (opt_chain BankAccount ''AccountID''),
                                  code = as_string (opt_chain BankAccount ''Code''),
                                  name = as_string (opt_chain BankAccount ''Name'')\<rparr>,
              isReconciled = as_boolean (get_prop bt ''IsReconciled''),
              reference = as_string (get_prop bt ''Reference''),
              currencyCode = as_string (get_prop bt ''CurrencyCode''),
              currencyRate = as_number (get_prop bt ''CurrencyRate''),
              url = as_string (get_prop bt ''Url''),
              subTotal = as_number (get_prop bt ''SubTotal''),
              totalTax = as_number (get_prop bt ''TotalTax''),
              total = as_number (get_prop bt ''Total''),
              hasAttachments = as_boolean (get_prop bt ''HasAttachments''),
              updatedDateUtc = as_string (get_prop bt ''UpdatedDateUTC'')\<rparr>))"

definition bank_account_reference :: "BankAccountRef option \<Rightarrow> jsval" where
  "bank_account_reference r =
     (case r of None \<Rightarrow> JUndefined
      | Some a \<Rightarrow> JObj [(''AccountID'', js_string (BankAccountRef.accountId a))])"

definition bank_transaction_line :: "XeroLineItem \<Rightarrow> jsval" where
  "bank_transaction_line li = JObj
     [(''Description'', js_string (XeroLineItem.description li)),
      (''Quantity'', js_number (quantity li)),
      (''UnitAmount'', js_number (unitAmount li)),
      (''AccountCode'', js_string (XeroLineItem.accountCode li)),
      (''TaxType'', js_string (XeroLineItem.taxType li))]"

definition mapBankTransactionToXero :: "XeroBankTransaction \<Rightarrow> jsobj" where
  "mapBankTransactionToXero transaction = exec
     [if_truthy ''Type'' (js_string (type transaction)),
      (is_set (contact transaction), ''Contact'', contact_reference (contact transaction)),
      (is_set (bankAccount transaction), ''BankAccount'', bank_account_reference (bankAccount transaction)),
      if_truthy ''Date'' (js_string (date transaction)),
      if_truthy ''Reference'' (js_string (reference transaction)),
      if_truthy ''CurrencyCode'' (js_string (currencyCode transaction)),
      (is_set (lineItems transaction), ''LineItems'',
         JArr (map bank_transaction_line (case lineItems transaction of None \<Rightarrow> [] | Some lis \<Rightarrow> lis)))]
     []"

subsection \<open>Accounts\<close>

record XeroAccount =
  accountId :: "string option"
  code :: "string option"
  name :: "string option"
  type :: "string option"
  status :: "string option"
  description :: "string option"
  taxType :: "string option"
  class' :: "string option"
  systemAccount :: "string option"
  enablePaymentsToAccount :: "bool option"
  showInExpenseClaims :: "bool option"
  bankAccountNumber :: "string option"
  bankAccountType :: "string option"
  currencyCode :: "string option"
  reportingCode :: "string option"
  reportingCodeName :: "string option"
  hasAttachments :: "bool option"
  updatedDateUtc :: "string option"
  addToWatchlist :: "bool option"

definition mapAccount :: "jsval \<Rightarrow> error + XeroAccount" where
  "mapAccount a =
     (case property a ''AccountID'' of
        Inl e \<Rightarrow> Inl e
      | Inr AccountID \<Rightarrow> Inr
         \<lparr>accountId = as_string AccountID,
          code = as_string (get_prop a ''Code''),
          name = as_string (get_prop a ''Name''),
          type = as_string (get_prop a ''Type''),
          status = as_string (get_prop a ''Status''),
          description = as_string (get_prop a ''Description''),
          taxType = as_string (get_prop a ''TaxType''),
          class' = as_string (get_prop a ''Class''),
          systemAccount = as_string (get_prop a ''SystemAccount''),
          enablePaymentsToAccount = as_boolean (get_prop a ''EnablePaymentsToAccount''),
          showInExpenseClaims = as_boolean (get_prop a ''ShowInExpenseClaims''),
          bankAccountNumber = as_string (get_prop a ''BankAccountNumber''),
          bankAccountType = as_string (get_prop a ''BankAccountType''),
          currencyCode = as_string (get_prop a ''CurrencyCode''),
          reportingCode = as_string (get_prop a ''ReportingCode''),
          reportingCodeName = as_string (get_prop a ''ReportingCodeName''),
          hasAttachments = as_boolean (get_prop a ''HasAttachments''),
          updatedDateUtc = as_string (get_prop a ''UpdatedDateUTC''),
          addToWatchlist = as_boolean (get_prop a ''AddToWatchlist'')\<rparr>)"


section \<open>Operation facade\<close>

subsection \<open>Payloads and query strings\<close>

text \<open>
  \<^verbatim>\<open>JSON.stringify\<close>, up to the text: the JSON document that the produced text denotes.
  A property whose value is undefined is left out; an undefined array element becomes
  null.
\<close>

fun JSON_stringify :: "jsval \<Rightarrow> jsval"
  and stringify_props :: "(string \<times> jsval) list \<Rightarrow> (string \<times> jsval) list"
  and stringify_items :: "jsval list \<Rightarrow> jsval list" where
  "JSON_stringify (JObj kvs) = JObj (stringify_props kvs)"
| "JSON_stringify (JArr xs) = JArr (stringify_items xs)"
| "JSON_stringify JUndefined = JUndefined"
| "JSON_stringify JNull = JNull"
| "JSON_stringify (JBool b) = JBool b"
| "JSON_stringify (JNum r) = JNum r"
| "JSON_stringify (JStr s) = JStr s"
| "stringify_props [] = []"
| "stringify_props (kv # kvs) =
     (if snd kv = JUndefined then stringify_props kvs
      else (fst kv, JSON_stringify (snd kv)) # stringify_props kvs)"
| "stringify_items [] = []"
| "stringify_items (x # xs) =
     (if x = JUndefined then JNull else JSON_stringify x) # stringify_items xs"

text \<open>A JSON document holds no undefined value at any depth.\<close>

fun defined_json :: "jsval \<Rightarrow> bool"
  and defined_props :: "(string \<times> jsval) list \<Rightarrow> bool"
  and defined_items :: "jsval list \<Rightarrow> bool" where
  "defined_json (JObj kvs) = defined_props kvs"
| "defined_json (JArr xs) = defined_items xs"
| "defined_json JUndefined = False"
| "defined_json JNull = True"
| "defined_json (JBool b) = True"
| "defined_json (JNum r) = True"
| "defined_json (JStr s) = True"
| "defined_props [] = True"
| "defined_props (kv # kvs) = (defined_json (snd kv) \<and> defined_props kvs)"
| "defined_items [] = True"
| "defined_items (x # xs) = (defined_json x \<and> defined_items xs)"

text \<open>\<^verbatim>\<open>URLSearchParams.toString()\<close>: the \<^verbatim>\<open>application/x-www-form-urlencoded\<close>
  serialisation, over the bytes of the strings.\<close>

definition hex_digit :: "nat \<Rightarrow> char" where
  "hex_digit n = ''0123456789ABCDEF'' ! n"

definition form_unreserved :: "char \<Rightarrow> bool" where
  "form_unreserved c =
     (c \<in> set ''abcdefghijklmnopqrstuvwxyzABCDEFGHIJKLMNOPQRSTUVWXYZ0123456789*-._'')"

definition form_encode_char :: "char \<Rightarrow> string" where
  "form_encode_char c =
     (if form_unreserved c then [c]
      else if c = CHR '' '' then ''+''
      else [CHR ''%'', hex_digit (of_char c div 16), hex_digit (of_char c mod 16)])"

definition form_encode :: "string \<Rightarrow> string" where
  "form_encode s = concat (map form_encode_char s)"

definition URLSearchParams_toString :: "(string \<times> string) list \<Rightarrow> string" where
  "URLSearchParams_toString queryParams =
     join ''&'' (map (\<lambda>kv. form_encode (fst kv) @ ''='' @ form_encode (snd kv)) queryParams)"

text \<open>\<^verbatim>\<open>if (params?.f) queryParams.set(key, params.f)\<close> for a string parameter.\<close>

definition set_if_truthy :: "string \<Rightarrow> string option \<Rightarrow> bool \<times> string \<times> string" where
  "set_if_truthy k x = (truthy (js_string x), k, text_of x)"

text \<open>\<^verbatim>\<open>`${path}${queryString ? `?${queryString}` : ''}`\<close>.\<close>

definition with_query :: "string \<Rightarrow> (string \<times> string) list \<Rightarrow> string" where
  "with_query path queryParams =
     (let queryString = URLSearchParams_toString queryParams
      in path @ (if queryString \<noteq> [] then ''?'' @ queryString else []))"

text \<open>Continuing after an awaited step: a failure propagates unchanged.\<close>

definition and_then :: "error + 'a \<Rightarrow> ('a \<Rightarrow> error + 'b) \<Rightarrow> error + 'b" where
  "and_then r f = (case r of Inl e \<Rightarrow> Inl e | Inr v \<Rightarrow> f v)"

text \<open>\<^verbatim>\<open>data.Key[0]\<close>.\<close>

definition first_of :: "jsval \<Rightarrow> string \<Rightarrow> error + jsval" where
  "first_of data key = and_then (property data key) index0"

text \<open>\<^verbatim>\<open>data.Key.map(f)\<close>.\<close>

definition all_of :: "jsval \<Rightarrow> string \<Rightarrow> (jsval \<Rightarrow> error + 'b) \<Rightarrow> error + 'b list" where
  "all_of data key f = and_then (property data key) (array_map f)"

definition POST :: "jsval \<Rightarrow> RequestInit" where
  "POST payload = \<lparr>RequestInit.httpMethod = Some ''POST'', body = Some (JSON_stringify payload)\<rparr>"

definition PUT :: "jsval \<Rightarrow> RequestInit" where
  "PUT payload = \<lparr>RequestInit.httpMethod = Some ''PUT'', body = Some (JSON_stringify payload)\<rparr>"

subsection \<open>Connection\<close>

record ConnectionResult =
  connected :: bool
  message :: string

text \<open>\<^verbatim>\<open>`Connected to ${org?.name || 'Xero'}`\<close>.\<close>

definition connected_message :: "jsval \<Rightarrow> string" where
  "connected_message org =
     ''Connected to '' @
       (if truthy (js_string (as_string (opt_chain org ''name'')))
        then text_of (as_string (opt_chain org ''name'')) else ''Xero'')"

definition testConnection :: "XeroClientImpl \<Rightarrow> remote \<Rightarrow> ConnectionResult \<times> HttpRequest list" where
  "testConnection this remote =
     (let (r, calls) = request this remote ''/Organisation'' GET;
          attempt = and_then r (\<lambda>data. and_then (first_of data ''Organisations'')
                      (\<lambda>org. Inr \<lparr>connected = True, message = connected_message org\<rparr>))
      in (case attempt of
            Inr result \<Rightarrow> result
          | Inl error \<Rightarrow> \<lparr>connected = False, message = error_message error\<rparr>,
          calls))"

subsection \<open>Lists, reads and writes\<close>

text \<open>
  An operation returns its result together with the requests it sent. The identifier
  argument of an operation is called \<open>ident\<close> and the partial entity \<open>partial\<close>.
  An absent \<^verbatim>\<open>params\<close> argument is the record with every field unset.
\<close>

record PaginationParams =
  page :: "nat option"
  where' :: "string option"
  order :: "string option"

record ListContactsParams = PaginationParams +
  includeArchived :: "bool option"

record ListInvoicesParams = PaginationParams +
  statuses :: "string list option"

record ListAccountsParams =
  where' :: "string option"
  classType :: "string option"

record 'a PaginatedResponse =
  items :: "'a list"
  count :: nat
  hasMore :: bool
  page :: nat

text \<open>\<^verbatim>\<open>if (params?.page) queryParams.set('page', String(params.page))\<close> and
  \<^verbatim>\<open>page: params?.page || 1\<close>. Page numbers are natural numbers.\<close>

definition set_page :: "nat option \<Rightarrow> bool \<times> string \<times> string" where
  "set_page p = (case p of None \<Rightarrow> (False, ''page'', []) | Some n \<Rightarrow> (n \<noteq> 0, ''page'', string_of_nat n))"

definition page_or_1 :: "nat option \<Rightarrow> nat" where
  "page_or_1 p = (case p of None \<Rightarrow> 1 | Some n \<Rightarrow> if n \<noteq> 0 then n else 1)"

definition paginated :: "'a list \<Rightarrow> nat option \<Rightarrow> 'a PaginatedResponse" where
  "paginated xs p = \<lparr>items = xs, count = length xs, hasMore = (length xs \<ge> 100), page = page_or_1 p\<rparr>"

definition hasMoreItems :: "nat \<Rightarrow> nat option \<Rightarrow> bool" where
  "hasMoreItems itemCount pageSize = (itemCount \<ge> (case pageSize of None \<Rightarrow> 100 | Some n \<Rightarrow> n))"

definition listContacts :: "XeroClientImpl \<Rightarrow> remote \<Rightarrow> ListContactsParams \<Rightarrow> (error + XeroContact PaginatedResponse) \<times> HttpRequest list" where
  "listContacts this remote params =
     (let queryParams = exec
            [set_page (PaginationParams.page params),
             set_if_truthy ''where'' (PaginationParams.where' params),
             set_if_truthy ''order'' (order params),
             (includeArchived params = Some True, ''includeArchived'', ''true'')] [];
          (r, calls) = request this remote (with_query ''/Contacts'' queryParams) GET
      in (and_then r (\<lambda>data. and_then (all_of data ''Contacts'' mapContact)
            (\<lambda>contacts. Inr (paginated contacts (PaginationParams.page params)))), calls))"

definition getContact :: "XeroClientImpl \<Rightarrow> remote \<Rightarrow> string \<Rightarrow> (error + XeroContact) \<times> HttpRequest list" where
  "getContact this remote ident =
     (let (r, calls) = request this remote (''/Contacts/'' @ ident) GET
      in (and_then r (\<lambda>data. and_then (first_of data ''Contacts'') mapContact), calls))"

definition updateContact :: "XeroClientImpl \<Rightarrow> remote \<Rightarrow> string \<Rightarrow> XeroContact \<Rightarrow> (error + XeroContact) \<times> HttpRequest list" where
  "updateContact this remote ident partial =
     (let (r, calls) = request this remote (''/Contacts/'' @ ident)
            (POST (JObj [(''Contacts'', JArr [JObj (mapContactToXero partial)])]))
      in (and_then r (\<lambda>data. and_then (first_of data ''Contacts'') mapContact), calls))"

definition listAccounts_query :: "ListAccountsParams \<Rightarrow> (string \<times> string) list" where
  "listAccounts_query params = exec
     [set_if_truthy ''where'' (ListAccountsParams.where' params),
      (truthy (js_string (classType params)), ''where'',
         ''Class=='' @ [CHR 0x22] @ text_of (classType params) @ [CHR 0x22])] []"

definition listAccounts :: "XeroClientImpl \<Rightarrow> remote \<Rightarrow> ListAccountsParams \<Rightarrow> (error + XeroAccount list) \<times> HttpRequest list" where
  "listAccounts this remote params =
     (let queryParams = listAccounts_query params;
          (r, calls) = request this remote (with_query ''/Accounts'' queryParams) GET
      in (and_then r (\<lambda>data. all_of data ''Accounts'' mapAccount), calls))"

text \<open>\<^verbatim>\<open>data.Invoices.map(this.mapInvoice)\<close> passes the method without its receiver, so
  inside it \<^verbatim>\<open>this\<close> is undefined.\<close>

definition listInvoices :: "XeroClientImpl \<Rightarrow> remote \<Rightarrow> ListInvoicesParams \<Rightarrow> (error + XeroInvoice PaginatedResponse) \<times> HttpRequest list" where
  "listInvoices this remote params =
     (let queryParams = exec
            [set_page (PaginationParams.page params),
             set_if_truthy ''where'' (PaginationParams.where' params),
             set_if_truthy ''order'' (order params),
             (is_set (statuses params), ''Statuses'',
                join '','' (case statuses params of None \<Rightarrow> [] | Some ss \<Rightarrow> ss))] [];
          (r, calls) = request this remote (with_query ''/Invoices'' queryParams) GET
      in (and_then r (\<lambda>data. and_then (all_of data ''Invoices'' (mapInvoice None))
            (\<lambda>invoices. Inr (paginated invoices (PaginationParams.page params)))), calls))"

definition getInvoice :: "XeroClientImpl \<Rightarrow> remote \<Rightarrow> string \<Rightarrow> (error + XeroInvoice) \<times> HttpRequest list" where
  "getInvoice this remote ident =
     (let (r, calls) = request this remote (''/Invoices/'' @ ident) GET
      in (and_then r (\<lambda>data. and_then (first_of data ''Invoices'') (mapInvoice (Some this))), calls))"

definition updateInvoice :: "XeroClientImpl \<Rightarrow> remote \<Rightarrow> string \<Rightarrow> XeroInvoice \<Rightarrow> (error + XeroInvoice) \<times> HttpRequest list" where
  "updateInvoice this remote ident partial =
     (let xeroInvoice = AList.update ''InvoiceID'' (JStr ident) (mapInvoiceToXero partial);
          (r, calls) = request this remote (''/Invoices/'' @ ident)
            (POST (JObj [(''Invoices'', JArr [JObj xeroInvoice])]))
      in (and_then r (\<lambda>data. and_then (first_of data ''Invoices'') (mapInvoice (Some this))), calls))"

definition listPayments :: "XeroClientImpl \<Rightarrow> remote \<Rightarrow> PaginationParams \<Rightarrow> (error + XeroPayment PaginatedResponse) \<times> HttpRequest list" where
  "listPayments this remote params =
     (let queryParams = exec
            [set_page (PaginationParams.page params),
             set_if_truthy ''where'' (PaginationParams.where' params),
             set_if_truthy ''order'' (order params)] [];
          (r, calls) = request this remote (with_query ''/Payments'' queryParams) GET
      in (and_then r (\<lambda>data. and_then (all_of data ''Payments'' mapPayment)
            (\<lambda>payments. Inr (paginated payments (PaginationParams.page params)))), calls))"

definition getPayment :: "XeroClientImpl \<Rightarrow> remote \<Rightarrow> string \<Rightarrow> (error + XeroPayment) \<times> HttpRequest list" where
  "getPayment this remote ident =
     (let (r, calls) = request this remote (''/Payments/'' @ ident) GET
      in (and_then r (\<lambda>data. and_then (first_of data ''Payments'') mapPayment), calls))"

definition createPayment :: "XeroClientImpl \<Rightarrow> remote \<Rightarrow> XeroPayment \<Rightarrow> (error + XeroPayment) \<times> HttpRequest list" where
  "createPayment this remote partial =
     (let (r, calls) = request this remote ''/Payments''
            (PUT (JObj [(''Payments'', JArr [JObj (mapPaymentToXero partial)])]))
      in (and_then r (\<lambda>data. and_then (first_of data ''Payments'') mapPayment), calls))"

definition listBankTransactions :: "XeroClientImpl \<Rightarrow> remote \<Rightarrow> PaginationParams \<Rightarrow> (error + XeroBankTransaction PaginatedResponse) \<times> HttpRequest list" where
  "listBankTransactions this remote params =
     (let queryParams = exec
            [set_page (PaginationParams.page params),
             set_if_truthy ''where'' (PaginationParams.where' params),
             set_if_truthy ''order'' (order params)] [];
          (r, calls) = request this remote (with_query ''/BankTransactions'' queryParams) GET
      in (and_then r (\<lambda>data. and_then (all_of data ''BankTransactions'' (mapBankTransaction (Some this)))
            (\<lambda>transactions. Inr (paginated transactions (PaginationParams.page params)))), calls))"

definition getBankTransaction :: "XeroClientImpl \<Rightarrow> remote \<Rightarrow> string \<Rightarrow> (error + XeroBankTransaction) \<times> HttpRequest list" where
  "getBankTransaction this remote ident =
     (let (r, calls) = request this remote (''/BankTransactions/'' @ ident) GET
      in (and_then r (\<lambda>data. and_then (first_of data ''BankTransactions'') (mapBankTransaction (Some this))), calls))"

definition updateBankTransaction :: "XeroClientImpl \<Rightarrow> remote \<Rightarrow> string \<Rightarrow> XeroBankTransaction \<Rightarrow> (error + XeroBankTransaction) \<times> HttpRequest list" where
  "updateBankTransaction this remote ident partial =
     (let xeroTransaction = AList.update ''BankTransactionID'' (JStr ident)
                              (mapBankTransactionToXero partial);
          (r, calls) = request this remote (''/BankTransactions/'' @ ident)
            (POST (JObj [(''BankTransactions'', JArr [JObj xeroTransaction])]))
      in (and_then r (\<lambda>data. and_then (first_of data ''BankTransactions'') (mapBankTransaction (Some this))), calls))"

definition getItem :: "XeroClientImpl \<Rightarrow> remote \<Rightarrow> string \<Rightarrow> (error + XeroItem) \<times> HttpRequest list" where
  "getItem this remote ident =
     (let (r, calls) = request this remote (''/Items/'' @ ident) GET
      in (and_then r (\<lambda>data. and_then (first_of data ''Items'') mapItem), calls))"

definition updateItem :: "XeroClientImpl \<Rightarrow> remote \<Rightarrow> string \<Rightarrow> XeroItem \<Rightarrow> (error + XeroItem) \<times> HttpRequest list" where
  "updateItem this remote ident partial =
     (let (r, calls) = request this remote (''/Items/'' @ ident)
            (POST (JObj [(''Items'', JArr [JObj (mapItemToXero partial)])]))
      in (and_then r (\<lambda>data. and_then (first_of data ''Items'') mapItem), calls))"


section \<open>The properties, in the words of the specification\<close>

text \<open>The keys of a wire object.\<close>

definition keys :: "jsobj \<Rightarrow> string set" where
  "keys kvs = fst ` set kvs"

text \<open>
  The message that the credential check fails with: the access token is tested
  first, then the tenant identifier.
\<close>

definition missing_credential :: "XeroClientImpl \<Rightarrow> string" where
  "missing_credential this =
     (if accessToken (credentials this) = []
      then ''No access token provided. Include X-Xero-Access-Token header.''
      else ''No tenant ID provided. Include X-Xero-Tenant-Id header.'')"

text \<open>
  The message of an API error as the specification describes it: the top-level
  message of the body when it has one (a non-empty string), else all validation
  messages of all elements joined by \<^verbatim>\<open>; \<close> when there is any, else the generic text,
  which also stands for a body that is not JSON.
\<close>

definition all_validation_messages :: "ErrorJson \<Rightarrow> string option list" where
  "all_validation_messages j =
     concat (map (\<lambda>e. case ValidationErrors e of None \<Rightarrow> [] | Some vs \<Rightarrow> map ValidationError.Message vs)
                 (case Elements j of None \<Rightarrow> [] | Some es \<Rightarrow> es))"

definition generic_message :: "nat \<Rightarrow> string" where
  "generic_message st = ''Xero API error: '' @ string_of_nat st"

definition described_message :: "nat \<Rightarrow> ErrorJson option \<Rightarrow> string" where
  "described_message st parsed =
     (case parsed of
        None \<Rightarrow> generic_message st
      | Some j \<Rightarrow>
          (case ErrorJson.Message j of
             Some (c # cs) \<Rightarrow> c # cs
           | _ \<Rightarrow> if all_validation_messages j \<noteq> []
                  then join ''; '' (map text_of (all_validation_messages j))
                  else generic_message st))"

text \<open>
  What a field holds after a round trip: a string or a number that \<^verbatim>\<open>toWire\<close> guards by
  truthiness comes back unless it is empty or zero.
\<close>

definition kept_string :: "string option \<Rightarrow> string option" where
  "kept_string x = (if x = Some [] then None else x)"

definition kept_number :: "rat option \<Rightarrow> rat option" where
  "kept_number x = (if x = Some 0 then None else x)"

text \<open>
  The entity that comes back from \<^verbatim>\<open>fromWire(toWire(entity))\<close>: the fields that
  \<^verbatim>\<open>toWire\<close> can emit, and nothing in the fields it leaves out (identifiers, money
  totals, timestamps, read-only flags).
\<close>

definition echo_contact :: "XeroContact \<Rightarrow> XeroContact" where
  "echo_contact c =
     \<lparr>XeroContact.contactId = None,
      contactNumber = kept_string (contactNumber c),
      accountNumber = kept_string (accountNumber c),
      contactStatus = kept_string (contactStatus c),
      name = kept_string (XeroContact.name c),
      firstName = kept_string (firstName c),
      lastName = kept_string (lastName c),
      emailAddress = kept_string (emailAddress c),
      bankAccountDetails = kept_string (bankAccountDetails c),
      taxNumber = kept_string (taxNumber c),
      accountsReceivableTaxType = kept_string (accountsReceivableTaxType c),
      accountsPayableTaxType = kept_string (accountsPayableTaxType c),
      isSupplier = isSupplier c,
      isCustomer = isCustomer c,
      defaultCurrency = kept_string (defaultCurrency c),
      updatedDateUtc = None,
      hasAttachments = None,
      hasValidationErrors = None,
      addresses = addresses c,
      phones = phones c,
      contactPersons = contactPersons c,
      balances = None,
      paymentTerms = paymentTerms c,
      contactGroups = None\<rparr>"

definition echo_contact_ref :: "ContactRef \<Rightarrow> ContactRef" where
  "echo_contact_ref r = \<lparr>ContactRef.contactId = ContactRef.contactId r, name = None\<rparr>"

definition echo_invoice_line :: "XeroLineItem \<Rightarrow> XeroLineItem" where
  "echo_invoice_line li =
     \<lparr>lineItemId = None,
      description = XeroLineItem.description li,
      quantity = quantity li,
      unitAmount = unitAmount li,
      itemCode = itemCode li,
      accountCode = XeroLineItem.accountCode li,
      taxType = XeroLineItem.taxType li,
      taxAmount = None,
      lineAmount = None,
      discountRate = discountRate li,
      discountAmount = None,
      tracking = tracking li\<rparr>"

definition echo_invoice :: "XeroInvoice \<Rightarrow> XeroInvoice" where
  "echo_invoice i =
     \<lparr>XeroInvoice.invoiceId = None,
      invoiceNumber = kept_string (XeroInvoice.invoiceNumber i),
      reference = kept_string (XeroInvoice.reference i),
      type = kept_string (XeroInvoice.type i),
      status = kept_string (XeroInvoice.status i),
      lineAmountTypes = kept_string (lineAmountTypes i),
      contact = Some (case XeroInvoice.contact i of
                        None \<Rightarrow> \<lparr>ContactRef.contactId = None, name = None\<rparr>
                      | Some r \<Rightarrow> echo_contact_ref r),
      date = kept_string (XeroInvoice.date i),
      dueDate = kept_string (dueDate i),
      expectedPaymentDate = None,
      plannedPaymentDate = None,
      currencyCode = kept_string (XeroInvoice.currencyCode i),
      currencyRate = None,
      lineItems = map_option (map echo_invoice_line) (XeroInvoice.lineItems i),
      subTotal = None,
      totalTax = None,
      total = None,
      totalDiscount = None,
      amountDue = None,
      amountPaid = None,
      amountCredited = None,
      fullyPaidOnDate = None,
      url = None,
      brandingThemeId = kept_string (brandingThemeId i),
      sentToContact = None,
      hasAttachments = None,
      hasErrors = None,
      updatedDateUtc = None\<rparr>"

definition echo_payment :: "XeroPayment \<Rightarrow> XeroPayment" where
  "echo_payment p =
     \<lparr>paymentId = None,
      paymentType = None,
      date = kept_string (XeroPayment.date p),
      amount = kept_number (amount p),
      currencyRate = None,
      reference = kept_string (XeroPayment.reference p),
      isReconciled = XeroPayment.isReconciled p,
      status = None,
      invoice = map_option (\<lambda>r. \<lparr>InvoiceRef.invoiceId = InvoiceRef.invoiceId r, invoiceNumber = None\<rparr>) (invoice p),
      account = map_option (\<lambda>r. \<lparr>PaymentAccount.accountId = PaymentAccount.accountId r, code = None\<rparr>) (account p),
      updatedDateUtc = None\<rparr>"

definition echo_item :: "XeroItem \<Rightarrow> XeroItem" where
  "echo_item i =
     \<lparr>itemId = None,
      code = kept_string (XeroItem.code i),
      name = kept_string (XeroItem.name i),
      description = kept_string (XeroItem.description i),
      purchaseDescription = kept_string (purchaseDescription i),
      purchaseDetails = purchaseDetails i,
      salesDetails = salesDetails i,
      isTrackedAsInventory = isTrackedAsInventory i,
      inventoryAssetAccountCode = kept_string (inventoryAssetAccountCode i),
      totalCostPool = None,
      quantityOnHand = None,
      isSold = isSold i,
      isPurchased = isPurchased i,
      updatedDateUtc = None\<rparr>"

definition echo_bank_line :: "XeroLineItem \<Rightarrow> XeroLineItem" where
  "echo_bank_line li =
     \<lparr>lineItemId = None,
      description = XeroLineItem.description li,
      quantity = quantity li,
      unitAmount = unitAmount li,
      itemCode = None,
      accountCode = XeroLineItem.accountCode li,
      taxType = XeroLineItem.taxType li,
      taxAmount = None,
      lineAmount = None,
      discountRate = None,
      discountAmount = None,
      tracking = None\<rparr>"

definition echo_bank_transaction :: "XeroBankTransaction \<Rightarrow> XeroBankTransaction" where
  "echo_bank_transaction b =
     \<lparr>bankTransactionId = None,
      type = kept_string (XeroBankTransaction.type b),
      status = None,
      contact = map_option echo_contact_ref (XeroBankTransaction.contact b),
      date = kept_string (XeroBankTransaction.date b),
      lineItems = map_option (map echo_bank_line) (XeroBankTransaction.lineItems b),
      bankAccount = Some \<lparr>BankAccountRef.accountId =
                            (case bankAccount b of None \<Rightarrow> None | Some a \<Rightarrow> BankAccountRef.accountId a),
                          code = None, name = None\<rparr>,
      isReconciled = None,
      reference = kept_string (XeroBankTransaction.reference b),
      currencyCode = kept_string (XeroBankTransaction.currencyCode b),
      currencyRate = None,
      url = None,
      subTotal = None,
      totalTax = None,
      total = None,
      hasAttachments = None,
      updatedDateUtc = None\<rparr>"

text \<open>\<^verbatim>\<open>fromWire(toWire(fromWire(wireSample)))\<close>.\<close>

definition round_trip_contact :: "jsval \<Rightarrow> error + XeroContact" where
  "round_trip_contact w = and_then (mapContact w) (\<lambda>c. mapContact (JObj (mapContactToXero c)))"

definition round_trip_invoice :: "XeroClientImpl \<Rightarrow> jsval \<Rightarrow> error + XeroInvoice" where
  "round_trip_invoice this w =
     and_then (mapInvoice (Some this) w) (\<lambda>i. mapInvoice (Some this) (JObj (mapInvoiceToXero i)))"

definition round_trip_payment :: "jsval \<Rightarrow> error + XeroPayment" where
  "round_trip_payment w = and_then (mapPayment w) (\<lambda>p. mapPayment (JObj (mapPaymentToXero p)))"

definition round_trip_item :: "jsval \<Rightarrow> error + XeroItem" where
  "round_trip_item w = and_then (mapItem w) (\<lambda>i. mapItem (JObj (mapItemToXero i)))"

definition round_trip_bank_transaction :: "XeroClientImpl \<Rightarrow> jsval \<Rightarrow> error + XeroBankTransaction" where
  "round_trip_bank_transaction this w =
     and_then (mapBankTransaction (Some this) w)
       (\<lambda>b. mapBankTransaction (Some this) (JObj (mapBankTransactionToXero b)))"

text \<open>The wire keys that are excluded by design: the entity's own identifier, money
  totals, timestamps and read-only flags.\<close>

definition contact_excluded :: "string list" where
  "contact_excluded =
     [''ContactID'', ''UpdatedDateUTC'', ''HasAttachments'', ''HasValidationErrors'', ''Balances'',
      ''ContactGroups'']"

definition invoice_excluded :: "string list" where
  "invoice_excluded =
     [''InvoiceID'', ''SubTotal'', ''TotalTax'', ''Total'', ''TotalDiscount'', ''AmountDue'',
      ''AmountPaid'', ''AmountCredited'', ''CurrencyRate'', ''FullyPaidOnDate'', ''Url'',
      ''ExpectedPaymentDate'', ''PlannedPaymentDate'', ''SentToContact'', ''HasAttachments'',
      ''HasErrors'', ''UpdatedDateUTC'']"

definition payment_excluded :: "string list" where
  "payment_excluded = [''PaymentID'', ''PaymentType'', ''CurrencyRate'', ''Status'', ''UpdatedDateUTC'']"

definition item_excluded :: "string list" where
  "item_excluded = [''ItemID'', ''TotalCostPool'', ''QuantityOnHand'', ''UpdatedDateUTC'']"

definition bank_transaction_excluded :: "string list" where
  "bank_transaction_excluded =
     [''BankTransactionID'', ''Status'', ''IsReconciled'', ''CurrencyRate'', ''Url'', ''SubTotal'',
      ''TotalTax'', ''Total'', ''HasAttachments'', ''UpdatedDateUTC'']"

text \<open>
  The wire keys a \<^verbatim>\<open>toWire\<close> function emits, field by field: the key of a string or
  number field when the field is truthy, the key of a boolean field when it is not
  undefined, the key of a nested object or collection when it is set.
\<close>

definition key_if :: "bool \<Rightarrow> string \<Rightarrow> string set" where
  "key_if b k = (if b then {k} else {})"

definition truthy_string :: "string option \<Rightarrow> bool" where
  "truthy_string x = (x \<noteq> None \<and> x \<noteq> Some [])"

definition truthy_number :: "rat option \<Rightarrow> bool" where
  "truthy_number x = (x \<noteq> None \<and> x \<noteq> Some 0)"

definition sent_contact_keys :: "XeroContact \<Rightarrow> string set" where
  "sent_contact_keys c =
     key_if (truthy_string (XeroContact.name c)) ''Name''
     \<union> key_if (truthy_string (firstName c)) ''FirstName''
     \<union> key_if (truthy_string (lastName c)) ''LastName''
     \<union> key_if (truthy_string (emailAddress c)) ''EmailAddress''
     \<union> key_if (truthy_string (contactNumber c)) ''ContactNumber''
     \<union> key_if (truthy_string (accountNumber c)) ''AccountNumber''
     \<union> key_if (truthy_string (contactStatus c)) ''ContactStatus''
     \<union> key_if (truthy_string (bankAccountDetails c)) ''BankAccountDetails''
     \<union> key_if (truthy_string (taxNumber c)) ''TaxNumber''
     \<union> key_if (truthy_string (accountsReceivableTaxType c)) ''AccountsReceivableTaxType''
     \<union> key_if (truthy_string (accountsPayableTaxType c)) ''AccountsPayableTaxType''
     \<union> key_if (isSupplier c \<noteq> None) ''IsSupplier''
     \<union> key_if (isCustomer c \<noteq> None) ''IsCustomer''
     \<union> key_if (truthy_string (defaultCurrency c)) ''DefaultCurrency''
     \<union> key_if (addresses c \<noteq> None) ''Addresses''
     \<union> key_if (phones c \<noteq> None) ''Phones''
     \<union> key_if (contactPersons c \<noteq> None) ''ContactPersons''
     \<union> key_if (paymentTerms c \<noteq> None) ''PaymentTerms''"

definition sent_invoice_keys :: "XeroInvoice \<Rightarrow> string set" where
  "sent_invoice_keys i =
     key_if (truthy_string (XeroInvoice.type i)) ''Type''
     \<union> key_if (XeroInvoice.contact i \<noteq> None) ''Contact''
     \<union> key_if (truthy_string (XeroInvoice.date i)) ''Date''
     \<union> key_if (truthy_string (dueDate i)) ''DueDate''
     \<union> key_if (truthy_string (lineAmountTypes i)) ''LineAmountTypes''
     \<union> key_if (truthy_string (XeroInvoice.invoiceNumber i)) ''InvoiceNumber''
     \<union> key_if (truthy_string (XeroInvoice.reference i)) ''Reference''
     \<union> key_if (truthy_string (XeroInvoice.currencyCode i)) ''CurrencyCode''
     \<union> key_if (truthy_string (XeroInvoice.status i)) ''Status''
     \<union> key_if (truthy_string (brandingThemeId i)) ''BrandingThemeID''
     \<union> key_if (XeroInvoice.lineItems i \<noteq> None) ''LineItems''"

definition sent_payment_keys :: "XeroPayment \<Rightarrow> string set" where
  "sent_payment_keys p =
     key_if (invoice p \<noteq> None) ''Invoice''
     \<union> key_if (account p \<noteq> None) ''Account''
     \<union> key_if (truthy_string (XeroPayment.date p)) ''Date''
     \<union> key_if (truthy_number (amount p)) ''Amount''
     \<union> key_if (truthy_string (XeroPayment.reference p)) ''Reference''
     \<union> key_if (XeroPayment.isReconciled p \<noteq> None) ''IsReconciled''"

definition sent_item_keys :: "XeroItem \<Rightarrow> string set" where
  "sent_item_keys i =
     key_if (truthy_string (XeroItem.code i)) ''Code''
     \<union> key_if (truthy_string (XeroItem.name i)) ''Name''
     \<union> key_if (truthy_string (XeroItem.description i)) ''Description''
     \<union> key_if (truthy_string (purchaseDescription i)) ''PurchaseDescription''
     \<union> key_if (purchaseDetails i \<noteq> None) ''PurchaseDetails''
     \<union> key_if (salesDetails i \<noteq> None) ''SalesDetails''
     \<union> key_if (isTrackedAsInventory i \<noteq> None) ''IsTrackedAsInventory''
     \<union> key_if (truthy_string (inventoryAssetAccountCode i)) ''InventoryAssetAccountCode''
     \<union> key_if (isSold i \<noteq> None) ''IsSold''
     \<union> key_if (isPurchased i \<noteq> None) ''IsPurchased''"

definition sent_bank_transaction_keys :: "XeroBankTransaction \<Rightarrow> string set" where
  "sent_bank_transaction_keys b =
     key_if (truthy_string (XeroBankTransaction.type b)) ''Type''
     \<union> key_if (XeroBankTransaction.contact b \<noteq> None) ''Contact''
     \<union> key_if (bankAccount b \<noteq> None) ''BankAccount''
     \<union> key_if (truthy_string (XeroBankTransaction.date b)) ''Date''
     \<union> key_if (truthy_string (XeroBankTransaction.reference b)) ''Reference''
     \<union> key_if (truthy_string (XeroBankTransaction.currencyCode b)) ''CurrencyCode''
     \<union> key_if (XeroBankTransaction.lineItems b \<noteq> None) ''LineItems''"

text \<open>The wire keys of the fields the caller supplied, that is, did not leave
  undefined.\<close>

definition supplied_contact_keys :: "XeroContact \<Rightarrow> string set" where
  "supplied_contact_keys c =
     key_if (XeroContact.name c \<noteq> None) ''Name''
     \<union> key_if (firstName c \<noteq> None) ''FirstName''
     \<union> key_if (lastName c \<noteq> None) ''LastName''
     \<union> key_if (emailAddress c \<noteq> None) ''EmailAddress''
     \<union> key_if (contactNumber c \<noteq> None) ''ContactNumber''
     \<union> key_if (accountNumber c \<noteq> None) ''AccountNumber''
     \<union> key_if (contactStatus c \<noteq> None) ''ContactStatus''
     \<union> key_if (bankAccountDetails c \<noteq> None) ''BankAccountDetails''
     \<union> key_if (taxNumber c \<noteq> None) ''TaxNumber''
     \<union> key_if (accountsReceivableTaxType c \<noteq> None) ''AccountsReceivableTaxType''
     \<union> key_if (accountsPayableTaxType c \<noteq> None) ''AccountsPayableTaxType''
     \<union> key_if (isSupplier c \<noteq> None) ''IsSupplier''
     \<union> key_if (isCustomer c \<noteq> None) ''IsCustomer''
     \<union> key_if (defaultCurrency c \<noteq> None) ''DefaultCurrency''
     \<union> key_if (addresses c \<noteq> None) ''Addresses''
     \<union> key_if (phones c \<noteq> None) ''Phones''
     \<union> key_if (contactPersons c \<noteq> None) ''ContactPersons''
     \<union> key_if (paymentTerms c \<noteq> None) ''PaymentTerms''"

definition supplied_invoice_keys :: "XeroInvoice \<Rightarrow> string set" where
  "supplied_invoice_keys i =
     key_if (XeroInvoice.type i \<noteq> None) ''Type''
     \<union> key_if (XeroInvoice.contact i \<noteq> None) ''Contact''
     \<union> key_if (XeroInvoice.date i \<noteq> None) ''Date''
     \<union> key_if (dueDate i \<noteq> None) ''DueDate''
     \<union> key_if (lineAmountTypes i \<noteq> None) ''LineAmountTypes''
     \<union> key_if (XeroInvoice.invoiceNumber i \<noteq> None) ''InvoiceNumber''
     \<union> key_if (XeroInvoice.reference i \<noteq> None) ''Reference''
     \<union> key_if (XeroInvoice.currencyCode i \<noteq> None) ''CurrencyCode''
     \<union> key_if (XeroInvoice.status i \<noteq> None) ''Status''
     \<union> key_if (brandingThemeId i \<noteq> None) ''BrandingThemeID''
     \<union> key_if (XeroInvoice.lineItems i \<noteq> None) ''LineItems''"

definition supplied_item_keys :: "XeroItem \<Rightarrow> string set" where
  "supplied_item_keys i =
     key_if (XeroItem.code i \<noteq> None) ''Code''
     \<union> key_if (XeroItem.name i \<noteq> None) ''Name''
     \<union> key_if (XeroItem.description i \<noteq> None) ''Description''
     \<union> key_if (purchaseDescription i \<noteq> None) ''PurchaseDescription''
     \<union> key_if (purchaseDetails i \<noteq> None) ''PurchaseDetails''
     \<union> key_if (salesDetails i \<noteq> None) ''SalesDetails''
     \<union> key_if (isTrackedAsInventory i \<noteq> None) ''IsTrackedAsInventory''
     \<union> key_if (inventoryAssetAccountCode i \<noteq> None) ''InventoryAssetAccountCode''
     \<union> key_if (isSold i \<noteq> None) ''IsSold''
     \<union> key_if (isPurchased i \<noteq> None) ''IsPurchased''"

definition supplied_bank_transaction_keys :: "XeroBankTransaction \<Rightarrow> string set" where
  "supplied_bank_transaction_keys b =
     key_if (XeroBankTransaction.type b \<noteq> None) ''Type''
     \<union> key_if (XeroBankTransaction.contact b \<noteq> None) ''Contact''
     \<union> key_if (bankAccount b \<noteq> None) ''BankAccount''
     \<union> key_if (XeroBankTransaction.date b \<noteq> None) ''Date''
     \<union> key_if (XeroBankTransaction.reference b \<noteq> None) ''Reference''
     \<union> key_if (XeroBankTransaction.currencyCode b \<noteq> None) ''CurrencyCode''
     \<union> key_if (XeroBankTransaction.lineItems b \<noteq> None) ''LineItems''"

text \<open>
  The same for the records nested in a payload: the keys of the fields the caller
  supplied in a line item, a contact or bank account reference, and the purchase and
  sales details of an item.
\<close>

definition supplied_line_keys :: "XeroLineItem \<Rightarrow> string set" where
  "supplied_line_keys li =
     key_if (XeroLineItem.description li \<noteq> None) ''Description''
     \<union> key_if (XeroLineItem.quantity li \<noteq> None) ''Quantity''
     \<union> key_if (XeroLineItem.unitAmount li \<noteq> None) ''UnitAmount''
     \<union> key_if (XeroLineItem.itemCode li \<noteq> None) ''ItemCode''
     \<union> key_if (XeroLineItem.accountCode li \<noteq> None) ''AccountCode''
     \<union> key_if (XeroLineItem.taxType li \<noteq> None) ''TaxType''
     \<union> key_if (XeroLineItem.discountRate li \<noteq> None) ''DiscountRate''
     \<union> key_if (XeroLineItem.tracking li \<noteq> None) ''Tracking''"

definition supplied_contact_ref_keys :: "ContactRef \<Rightarrow> string set" where
  "supplied_contact_ref_keys r = key_if (ContactRef.contactId r \<noteq> None) ''ContactID''"

definition supplied_bank_account_keys :: "BankAccountRef \<Rightarrow> string set" where
  "supplied_bank_account_keys a = key_if (BankAccountRef.accountId a \<noteq> None) ''AccountID''"

definition supplied_purchase_keys :: "PurchaseDetails \<Rightarrow> string set" where
  "supplied_purchase_keys d =
     key_if (PurchaseDetails.unitPrice d \<noteq> None) ''UnitPrice''
     \<union> key_if (PurchaseDetails.accountCode d \<noteq> None) ''AccountCode''
     \<union> key_if (PurchaseDetails.cogsAccountCode d \<noteq> None) ''COGSAccountCode''
     \<union> key_if (PurchaseDetails.taxType d \<noteq> None) ''TaxType''"

definition supplied_sales_keys :: "SalesDetails \<Rightarrow> string set" where
  "supplied_sales_keys d =
     key_if (SalesDetails.unitPrice d \<noteq> None) ''UnitPrice''
     \<union> key_if (SalesDetails.accountCode d \<noteq> None) ''AccountCode''
     \<union> key_if (SalesDetails.taxType d \<noteq> None) ''TaxType''"

text \<open>
  A nested record of a payload holds only supplied fields: when the caller left the
  nested object undefined the payload has no such key, and otherwise the key holds an
  object whose keys are among those of the fields supplied in it.
\<close>

definition nested_within :: "jsobj \<Rightarrow> string \<Rightarrow> string set option \<Rightarrow> bool" where
  "nested_within props k supplied =
     (case supplied of
        None \<Rightarrow> map_of props k = None
      | Some ks \<Rightarrow> (case map_of props k of Some (JObj kvs) \<Rightarrow> keys kvs \<subseteq> ks | _ \<Rightarrow> False))"

text \<open>A value the caller gave as it stands (an array or object of the remote side's
  own shape) is sent as given, and not sent when the caller left it undefined.\<close>

definition sent_as_given :: "jsobj \<Rightarrow> string \<Rightarrow> jsval \<Rightarrow> bool" where
  "sent_as_given props k given =
     (map_of props k = (if given = JUndefined then None else Some (JSON_stringify given)))"

text \<open>The line items of a payload, one for each line item supplied and in the same
  order, each with only the keys of the fields supplied in it.\<close>

definition line_within :: "jsval \<Rightarrow> XeroLineItem \<Rightarrow> bool" where
  "line_within line li =
     (case line of
        JObj kvs \<Rightarrow> keys kvs \<subseteq> supplied_line_keys li
          \<and> (map_of kvs ''Tracking'' = None \<or> sent_as_given kvs ''Tracking'' (js_array (XeroLineItem.tracking li)))
      | _ \<Rightarrow> False)"

definition lines_within :: "jsobj \<Rightarrow> XeroLineItem list option \<Rightarrow> bool" where
  "lines_within props supplied =
     (case supplied of
        None \<Rightarrow> map_of props ''LineItems'' = None
      | Some lis \<Rightarrow> (case map_of props ''LineItems'' of
                       Some (JArr lines) \<Rightarrow> list_all2 line_within lines lis
                     | _ \<Rightarrow> False))"

subsection \<open>Sample inputs\<close>

definition sample_client :: XeroClientImpl where
  "sample_client = createXeroClient
     \<lparr>TenantCredentials.accessToken = ''token'', tenantId = ''tenant'', baseUrl = None\<rparr>"

definition no_tenant_client :: XeroClientImpl where
  "no_tenant_client = createXeroClient
     \<lparr>TenantCredentials.accessToken = ''token'', tenantId = [], baseUrl = None\<rparr>"

definition no_headers :: "string \<Rightarrow> string option" where
  "no_headers h = None"

definition retry_after :: "string \<Rightarrow> string \<Rightarrow> string option" where
  "retry_after v h = (if h = ''Retry-After'' then Some v else None)"

text \<open>A remote side that answers every request with a decoded JSON body.\<close>

definition answering :: "nat \<Rightarrow> jsval \<Rightarrow> remote" where
  "answering st data req =
     Responded \<lparr>HttpResponse.status = st, headers_get = no_headers, text_json = None, json = Some data\<rparr>"

text \<open>A remote side that answers every request with an error body.\<close>

definition refusing :: "nat \<Rightarrow> ErrorJson \<Rightarrow> remote" where
  "refusing st errorJson req =
     Responded \<lparr>HttpResponse.status = st, headers_get = no_headers, text_json = Some errorJson, json = None\<rparr>"

text \<open>A remote side that answers 429, with or without a \<^verbatim>\<open>Retry-After\<close> header.\<close>

definition throttling :: "(string \<Rightarrow> string option) \<Rightarrow> remote" where
  "throttling hs req =
     Responded \<lparr>HttpResponse.status = 429, headers_get = hs, text_json = None, json = None\<rparr>"


definition no_pagination :: PaginationParams where
  "no_pagination = \<lparr>PaginationParams.page = None, where' = None, order = None\<rparr>"

definition no_contact_filter :: ListContactsParams where
  "no_contact_filter = \<lparr>PaginationParams.page = None, where' = None, order = None, includeArchived = None\<rparr>"

definition no_invoice_filter :: ListInvoicesParams where
  "no_invoice_filter = \<lparr>PaginationParams.page = None, where' = None, order = None, statuses = None\<rparr>"

text \<open>A decoded response body that holds \<open>n\<close> copies of a wire record under \<open>key\<close>.\<close>

definition listing :: "string \<Rightarrow> nat \<Rightarrow> jsval \<Rightarrow> jsval" where
  "listing key n w = JObj [(key, JArr (replicate n w))]"

definition asset_filter :: ListAccountsParams where
  "asset_filter = \<lparr>ListAccountsParams.where' = Some ''Status=ACTIVE'', classType = Some ''ASSET''\<rparr>"

text \<open>A filter whose class type is the empty string.\<close>

definition blank_class_filter :: ListAccountsParams where
  "blank_class_filter = \<lparr>ListAccountsParams.where' = Some ''Status=ACTIVE'', classType = Some []\<rparr>"

text \<open>A remote side that cannot be reached: \<^verbatim>\<open>fetch\<close> rejects.\<close>

definition unreachable :: remote where
  "unreachable req = Rejected ''fetch failed''"

text \<open>The empty partial entities, and wire records as the remote side returns them.\<close>

definition no_contact :: XeroContact where
  "no_contact =
     \<lparr>XeroContact.contactId = None, contactNumber = None, accountNumber = None, contactStatus = None,
      name = None, firstName = None, lastName = None, emailAddress = None, bankAccountDetails = None,
      taxNumber = None, accountsReceivableTaxType = None, accountsPayableTaxType = None,
      isSupplier = None, isCustomer = None, defaultCurrency = None, updatedDateUtc = None,
      hasAttachments = None, hasValidationErrors = None, addresses = None, phones = None,
      contactPersons = None, balances = None, paymentTerms = None, contactGroups = None\<rparr>"

definition no_invoice :: XeroInvoice where
  "no_invoice =
     \<lparr>XeroInvoice.invoiceId = None, invoiceNumber = None, reference = None, type = None, status = None,
      lineAmountTypes = None, contact = None, date = None, dueDate = None, expectedPaymentDate = None,
      plannedPaymentDate = None, currencyCode = None, currencyRate = None, lineItems = None,
      subTotal = None, totalTax = None, total = None, totalDiscount = None, amountDue = None,
      amountPaid = None, amountCredited = None, fullyPaidOnDate = None, url = None,
      brandingThemeId = None, sentToContact = None, hasAttachments = None, hasErrors = None,
      updatedDateUtc = None\<rparr>"

definition no_payment :: XeroPayment where
  "no_payment =
     \<lparr>paymentId = None, paymentType = None, date = None, amount = None, currencyRate = None,
      reference = None, isReconciled = None, status = None, invoice = None, account = None,
      updatedDateUtc = None\<rparr>"

definition no_item :: XeroItem where
  "no_item =
     \<lparr>itemId = None, code = None, name = None, description = None, purchaseDescription = None,
      purchaseDetails = None, salesDetails = None, isTrackedAsInventory = None,
      inventoryAssetAccountCode = None, totalCostPool = None, quantityOnHand = None, isSold = None,
      isPurchased = None, updatedDateUtc = None\<rparr>"

definition no_bank_transaction :: XeroBankTransaction where
  "no_bank_transaction =
     \<lparr>bankTransactionId = None, type = None, status = None, contact = None, date = None,
      lineItems = None, bankAccount = None, isReconciled = None, reference = None,
      currencyCode = None, currencyRate = None, url = None, subTotal = None, totalTax = None,
      total = None, hasAttachments = None, updatedDateUtc = None\<rparr>"

definition no_line :: XeroLineItem where
  "no_line =
     \<lparr>lineItemId = None, description = None, quantity = None, unitAmount = None, itemCode = None,
      accountCode = None, taxType = None, taxAmount = None, lineAmount = None, discountRate = None,
      discountAmount = None, tracking = None\<rparr>"

text \<open>A contact with an empty name that is explicitly neither supplier nor customer, a
  payment of amount zero that is explicitly not reconciled, and an item with its three
  flags explicitly off.\<close>

definition blank_contact :: XeroContact where
  "blank_contact = no_contact\<lparr>XeroContact.name := Some [], isSupplier := Some False, isCustomer := Some False\<rparr>"

definition zero_payment :: XeroPayment where
  "zero_payment = no_payment\<lparr>amount := Some 0, XeroPayment.isReconciled := Some False\<rparr>"

definition untracked_item :: XeroItem where
  "untracked_item = no_item\<lparr>XeroItem.code := Some ''W-1'', isTrackedAsInventory := Some False,
     isSold := Some False, isPurchased := Some False\<rparr>"

definition acme_wire :: jsval where
  "acme_wire = JObj
     [(''ContactID'', JStr ''c-1''), (''Name'', JStr ''Acme''), (''FirstName'', JStr []),
      (''IsSupplier'', JBool False), (''UpdatedDateUTC'', JStr ''2024-01-01'')]"

definition invoice_wire :: jsval where
  "invoice_wire = JObj
     [(''InvoiceID'', JStr ''i-1''), (''Type'', JStr ''ACCREC''),
      (''Contact'', JObj [(''ContactID'', JStr ''c-1''), (''Name'', JStr ''Acme'')]),
      (''Reference'', JStr []),
      (''LineItems'', JArr [JObj [(''LineItemID'', JStr ''l-1''), (''Description'', JStr ''Widget''),
                                 (''Quantity'', JNum 2), (''UnitAmount'', JNum 50),
                                 (''AccountCode'', JStr ''200''), (''LineAmount'', JNum 100)]]),
      (''Total'', JNum 100)]"

definition payment_wire :: jsval where
  "payment_wire = JObj
     [(''PaymentID'', JStr ''p-1''), (''Amount'', JNum 0), (''Reference'', JStr ''deposit''),
      (''Invoice'', JObj [(''InvoiceID'', JStr ''i-1''), (''InvoiceNumber'', JStr ''INV-1'')])]"

definition item_wire :: jsval where
  "item_wire = JObj
     [(''ItemID'', JStr ''it-1''), (''Code'', JStr ''W-1''), (''IsTrackedAsInventory'', JBool False),
      (''SalesDetails'', JObj [(''UnitPrice'', JNum 5)]), (''QuantityOnHand'', JNum 3)]"

definition bank_wire :: jsval where
  "bank_wire = JObj
     [(''BankTransactionID'', JStr ''b-1''), (''Type'', JStr ''SPEND''),
      (''BankAccount'', JObj [(''AccountID'', JStr ''a-1''), (''Code'', JStr ''090'')]),
      (''Total'', JNum 10)]"

text \<open>An invoice as a list response may summarise it, without line items, and a bank
  transaction with one line.\<close>

definition summary_invoice_wire :: jsval where
  "summary_invoice_wire = JObj [(''InvoiceID'', JStr ''i-2''), (''Type'', JStr ''ACCPAY''), (''Total'', JNum 40)]"

definition spend_wire :: jsval where
  "spend_wire = JObj
     [(''BankTransactionID'', JStr ''b-2''), (''Type'', JStr ''SPEND''),
      (''LineItems'', JArr [JObj [(''Description'', JStr ''Fee''), (''UnitAmount'', JNum 10)]])]"

text \<open>Partial entities for updates.\<close>

definition addressed_contact :: XeroContact where
  "addressed_contact = no_contact\<lparr>XeroContact.name := Some ''Acme Ltd'',
     addresses := Some [JObj [(''City'', JStr ''Leeds''), (''Region'', JUndefined)]]\<rparr>"

definition lined_invoice :: XeroInvoice where
  "lined_invoice = no_invoice\<lparr>XeroInvoice.reference := Some ''PO-7'',
     XeroInvoice.contact := Some \<lparr>ContactRef.contactId = Some ''c-1'', name = None\<rparr>,
     XeroInvoice.lineItems := Some [no_line\<lparr>XeroLineItem.description := Some ''Widget'', quantity := Some 2\<rparr>]\<rparr>"

definition priced_item :: XeroItem where
  "priced_item = no_item\<lparr>XeroItem.code := Some ''W-1'',
     purchaseDetails := Some \<lparr>PurchaseDetails.unitPrice = Some 3, accountCode = None,
                                cogsAccountCode = None, taxType = None\<rparr>,
     isSold := Some False\<rparr>"

definition spend_transaction :: XeroBankTransaction where
  "spend_transaction = no_bank_transaction\<lparr>XeroBankTransaction.date := Some ''2024-02-01'',
     bankAccount := Some \<lparr>BankAccountRef.accountId = Some ''a-1'', code = None, name = None\<rparr>,
     XeroBankTransaction.lineItems := Some [no_line\<lparr>XeroLineItem.description := Some ''Fee'', unitAmount := Some 10\<rparr>]\<rparr>"

section \<open>Verified properties\<close>

subsection \<open>Guarded assignments\<close>

lemma keys_exec: "fst ` set (exec as r) = fst ` set r \<union> assigned_keys as"
  by (induction as r rule: exec.induct) (auto simp: dom_update)

lemma first_assigned_absent:
  "k \<notin> key_of ` set as \<Longrightarrow> first_assigned as k = None"
  by (induction as k rule: first_assigned.induct) auto

lemma map_of_exec_general:
  "distinct (map key_of as) \<Longrightarrow>
   map_of (exec as r) k =
     (case first_assigned as k of
        Some (c, v) \<Rightarrow> if c then Some v else map_of r k
      | None \<Rightarrow> map_of r k)"
proof (induction as arbitrary: r)
  case Nil
  show ?case by simp
next
  case (Cons a rest)
  obtain cond k' v where a: "a = (cond, k', v)" by (cases a)
  from Cons.prems a have d: "distinct (map key_of rest)" and n: "k' \<notin> key_of ` set rest"
    by auto
  note ih = Cons.IH [OF d]
  show ?case
  proof (cases "k' = k")
    case True
    with n have "first_assigned rest k = None"
      by (intro first_assigned_absent) simp
    with True a show ?thesis by (simp add: ih update_conv')
  next
    case False
    with a show ?thesis by (simp add: ih update_conv' split: option.splits)
  qed
qed

lemma map_of_exec:
  "distinct (map key_of as) \<Longrightarrow>
   map_of (exec as []) k =
     (case first_assigned as k of Some (c, v) \<Rightarrow> if c then Some v else None | None \<Rightarrow> None)"
  by (simp add: map_of_exec_general split: option.splits)

lemma get_prop_exec:
  "distinct (map key_of as) \<Longrightarrow>
   get_prop (JObj (exec as [])) k =
     (case first_assigned as k of Some (c, v) \<Rightarrow> if c then v else JUndefined | None \<Rightarrow> JUndefined)"
  by (simp add: map_of_exec split: option.splits)

subsection \<open>Round trips and key sets of the mappers\<close>

lemma read_back [simp]:
  "as_string (js_string x) = x"
  "as_number (js_number n) = n"
  "as_boolean (js_boolean b) = b"
  "as_array (js_array xs) = xs"
  "as_object (js_object kvs) = kvs"
  by (simp_all add: js_string_def js_number_def js_boolean_def js_array_def js_object_def split: option.splits)

lemma read_back_guarded [simp]:
  "as_string (if truthy (js_string x) then js_string x else JUndefined) = kept_string x"
  "as_number (if truthy (js_number n) then js_number n else JUndefined) = kept_number n"
  "as_boolean (if js_boolean b \<noteq> JUndefined then js_boolean b else JUndefined) = b"
  "as_array (if truthy (js_array xs) then js_array xs else JUndefined) = xs"
  "as_object (if truthy (js_object kvs) then js_object kvs else JUndefined) = kvs"
  by (auto simp: js_string_def js_number_def js_boolean_def js_array_def js_object_def
      kept_string_def kept_number_def split: option.splits)

lemma property_object [simp]: "property (JObj kvs) k = Inr (get_prop (JObj kvs) k)"
  by (simp add: property_def)


lemma contact_round_trip: "mapContact (JObj (mapContactToXero c)) = Inr (echo_contact c)"
  unfolding mapContact_def mapContactToXero_def echo_contact_def if_truthy_def if_defined_def
  by (simp add: get_prop_exec del: get_prop.simps exec.simps)


lemma line_round_trip: "mapLineItem (invoice_line li) = Inr (echo_invoice_line li)"
  by (simp add: mapLineItem_def invoice_line_def echo_invoice_line_def)

lemma bank_line_round_trip: "mapLineItem (bank_transaction_line li) = Inr (echo_bank_line li)"
  by (simp add: mapLineItem_def bank_transaction_line_def echo_bank_line_def)

lemma map_err_map: "(\<And>x. f (g x) = Inr (h x)) \<Longrightarrow> map_err f (map g xs) = Inr (map h xs)"
  by (induction xs) simp_all

lemma lines_round_trip:
  "mapLineItems (Some this) (if is_set xs then JArr (map invoice_line (case xs of None \<Rightarrow> [] | Some lis \<Rightarrow> lis)) else JUndefined)
     = Inr (map_option (map echo_invoice_line) xs)"
  by (cases xs) (simp_all add: is_set_def mapLineItems_def array_map_def map_err_map [of mapLineItem invoice_line echo_invoice_line] line_round_trip)

lemma bank_lines_round_trip:
  "mapLineItems (Some this) (if is_set xs then JArr (map bank_transaction_line (case xs of None \<Rightarrow> [] | Some lis \<Rightarrow> lis)) else JUndefined)
     = Inr (map_option (map echo_bank_line) xs)"
  by (cases xs) (simp_all add: is_set_def mapLineItems_def array_map_def map_err_map [of mapLineItem bank_transaction_line echo_bank_line] bank_line_round_trip)

lemma contact_ref_read [simp]:
  "as_string (opt_chain (if is_set r then contact_reference r else JUndefined) ''ContactID'')
     = (case r of None \<Rightarrow> None | Some x \<Rightarrow> ContactRef.contactId x)"
  "as_string (opt_chain (if is_set r then contact_reference r else JUndefined) ''Name'') = None"
  by (cases r; simp add: is_set_def opt_chain_def contact_reference_def)+

lemma invoice_round_trip:
  "mapInvoice (Some this) (JObj (mapInvoiceToXero i)) = Inr (echo_invoice i)"
  unfolding mapInvoice_def mapInvoiceToXero_def echo_invoice_def if_truthy_def if_defined_def
  by (simp add: get_prop_exec lines_round_trip echo_contact_ref_def del: get_prop.simps exec.simps
      split: option.splits)



lemma is_set_simps [simp]: "is_set None = False" "is_set (Some x) = True"
  by (simp_all add: is_set_def)

lemma payment_round_trip: "mapPayment (JObj (mapPaymentToXero p)) = Inr (echo_payment p)"
  unfolding mapPayment_def mapPaymentToXero_def echo_payment_def if_truthy_def if_defined_def
  by (cases "invoice p"; cases "account p";
      simp add: get_prop_exec Let_def del: get_prop.simps exec.simps;
      simp add: invoice_reference_def payment_account_reference_def)

lemma item_round_trip: "mapItem (JObj (mapItemToXero i)) = Inr (echo_item i)"
  unfolding mapItem_def mapItemToXero_def echo_item_def if_truthy_def if_defined_def
  by (cases "purchaseDetails i"; cases "salesDetails i";
      simp add: get_prop_exec Let_def del: get_prop.simps exec.simps;
      simp add: purchase_details_def sales_details_def)


lemma bank_transaction_round_trip:
  "mapBankTransaction (Some this) (JObj (mapBankTransactionToXero b)) = Inr (echo_bank_transaction b)"
  unfolding mapBankTransaction_def mapBankTransactionToXero_def echo_bank_transaction_def if_truthy_def if_defined_def
  by (cases "XeroBankTransaction.contact b"; cases "bankAccount b";
      simp add: get_prop_exec Let_def bank_lines_round_trip del: get_prop.simps exec.simps;
      simp add: contact_reference_def bank_account_reference_def echo_contact_ref_def opt_chain_def)

lemma guard_keys:
  "truthy (js_string x) = truthy_string x"
  "truthy (js_number n) = truthy_number n"
  "(js_boolean b \<noteq> JUndefined) = (b \<noteq> None)"
  "truthy (js_array xs) = (xs \<noteq> None)"
  "truthy (js_object kvs) = (kvs \<noteq> None)"
  by (auto simp: js_string_def js_number_def js_boolean_def js_array_def js_object_def
      truthy_string_def truthy_number_def split: option.splits)

lemma assigned_keys_Cons: "assigned_keys ((c, k, v) # rest) = key_if c k \<union> assigned_keys rest"
  by (simp add: key_if_def)

lemma keys_exec_empty: "keys (exec as []) = assigned_keys as"
  by (simp add: keys_def keys_exec)

lemmas key_simps = assigned_keys_Cons assigned_keys.simps(1) guard_keys is_set_def Un_empty_right Un_assoc

lemma contact_keys: "keys (mapContactToXero c) = sent_contact_keys c"
  unfolding mapContactToXero_def sent_contact_keys_def if_truthy_def if_defined_def keys_exec_empty
  by (simp only: key_simps)

lemma invoice_keys: "keys (mapInvoiceToXero i) = sent_invoice_keys i"
  unfolding mapInvoiceToXero_def sent_invoice_keys_def if_truthy_def if_defined_def keys_exec_empty
  by (simp only: key_simps)

lemma payment_keys: "keys (mapPaymentToXero p) = sent_payment_keys p"
  unfolding mapPaymentToXero_def sent_payment_keys_def if_truthy_def if_defined_def keys_exec_empty
  by (simp only: key_simps)

lemma item_keys: "keys (mapItemToXero i) = sent_item_keys i"
  unfolding mapItemToXero_def sent_item_keys_def if_truthy_def if_defined_def keys_exec_empty
  by (simp only: key_simps)

lemma bank_transaction_keys: "keys (mapBankTransactionToXero b) = sent_bank_transaction_keys b"
  unfolding mapBankTransactionToXero_def sent_bank_transaction_keys_def if_truthy_def if_defined_def keys_exec_empty
  by (simp only: key_simps)

subsection \<open>Transport\<close>

lemmas parse_defs = parseInt_def is_white_def is_digit_def digit_value_def

lemma sample_headers:
  "getAuthHeaders sample_client = Inr
     [(''Authorization'', ''Bearer token''), (''Xero-Tenant-Id'', ''tenant''),
      (''Content-Type'', ''application/json''), (''Accept'', ''application/json'')]"
  by (simp add: getAuthHeaders_def sample_client_def createXeroClient_def)

text \<open>
  C3. On a 429 response with the header \<^verbatim>\<open>Retry-After: 30\<close> the request helper fails
  with the rate-limit error carrying 30, and with no header it carries 60. With a header
  that holds no leading number, such as an HTTP date, \<^verbatim>\<open>parseInt\<close> yields NaN and the
  error carries NaN, not the default of 60.
\<close>

theorem retry_after_not_a_number:
  "fst (request sample_client (throttling (retry_after ''Wed, 21 Oct 2015 07:28:00 GMT'')) ''/Contacts'' GET)
     = Inl (RateLimitError ''Rate limit exceeded'' NaN)
   \<and> fst (request sample_client (throttling (retry_after ''30'')) ''/Contacts'' GET)
     = Inl (RateLimitError ''Rate limit exceeded'' (Seconds 30))
   \<and> fst (request sample_client (throttling no_headers) ''/Contacts'' GET)
     = Inl (RateLimitError ''Rate limit exceeded'' (Seconds 60))"
  by (simp add: request_def sample_headers throttling_def retry_after_def no_headers_def parse_defs)

lemma filter_has_validation_errors:
  "concat (map element_messages (filter has_validation_errors es)) =
   concat (map (\<lambda>e. case ValidationErrors e of None \<Rightarrow> [] | Some vs \<Rightarrow> map ValidationError.Message vs) es)"
  by (induction es) (auto simp: element_messages_def has_validation_errors_def split: option.splits)

lemma api_error_message_described:
  "api_error_message response = described_message (HttpResponse.status response) (text_json response)"
  by (auto simp: api_error_message_def described_message_def generic_message_def Let_def
      all_validation_messages_def filter_has_validation_errors js_string_def text_of_def
      split: option.splits list.splits)

lemma request_responded:
  assumes "getAuthHeaders this = Inr hs"
    and "remote \<lparr>HttpRequest.url = XeroClientImpl.baseUrl this @ endpoint, httpMethod = RequestInit.httpMethod options,
                  headers = hs, body = RequestInit.body options\<rparr> = Responded response"
  shows "fst (request this remote endpoint options) =
     (if HttpResponse.status response = 429
      then Inl (RateLimitError ''Rate limit exceeded''
            (case headers_get response ''Retry-After'' of
               None \<Rightarrow> Seconds 60
             | Some retryAfter \<Rightarrow> if retryAfter \<noteq> [] then parseInt retryAfter else Seconds 60))
      else if HttpResponse.status response = 401
      then Inl (AuthenticationError ''Invalid or expired access token'')
      else if HttpResponse.status response = 403
      then Inl (AuthenticationError ''Access forbidden. Check tenant ID and permissions.'')
      else if \<not> ok response
      then Inl (CrmApiError (api_error_message response) (HttpResponse.status response))
      else if HttpResponse.status response = 204
      then Inr JUndefined
      else (case json response of
              None \<Rightarrow> Inl (SyntaxError ''Unexpected token in JSON'')
            | Some v \<Rightarrow> Inr v))"
  using assms by (simp add: request_def Let_def)

text \<open>
  C4, as amended. For a client with credentials and a response of the remote side, the
  request helper classifies in this order: 429 gives the rate-limit error; 401 and 403
  give the authentication error; any other status outside 200..299 gives an API error
  with that status whose message is the top-level \<^verbatim>\<open>Message\<close> of the body when it is
  present and not empty, else the validation messages of all elements joined by
  \<^verbatim>\<open>; \<close> when there is any, else \<^verbatim>\<open>Xero API error: <status>\<close>, which also stands for a
  body that is not JSON; 204 gives success with an undefined payload; any other 2xx
  gives the decoded body.
\<close>

theorem response_classification:
  assumes "getAuthHeaders this = Inr hs"
    and "remote \<lparr>HttpRequest.url = XeroClientImpl.baseUrl this @ endpoint, httpMethod = RequestInit.httpMethod options,
                  headers = hs, body = RequestInit.body options\<rparr> = Responded response"
  shows "(HttpResponse.status response = 429 \<longrightarrow>
            (\<exists>s. fst (request this remote endpoint options) = Inl (RateLimitError ''Rate limit exceeded'' s)))
       \<and> (HttpResponse.status response = 401 \<or> HttpResponse.status response = 403 \<longrightarrow>
            (\<exists>m. fst (request this remote endpoint options) = Inl (AuthenticationError m)))
       \<and> (HttpResponse.status response \<notin> {429, 401, 403} \<and> \<not> ok response \<longrightarrow>
            fst (request this remote endpoint options) =
              Inl (CrmApiError (described_message (HttpResponse.status response) (text_json response))
                               (HttpResponse.status response)))
       \<and> (HttpResponse.status response = 204 \<longrightarrow> fst (request this remote endpoint options) = Inr JUndefined)
       \<and> (ok response \<and> HttpResponse.status response \<noteq> 204 \<and> json response = Some v \<longrightarrow>
            fst (request this remote endpoint options) = Inr v)"
  using assms request_responded [of this hs remote endpoint options response]
  by (auto simp: api_error_message_described ok_def)

theorem response_classification_witness:
  "fst (request sample_client (throttling no_headers) ''/Contacts'' GET)
     = Inl (RateLimitError ''Rate limit exceeded'' (Seconds 60))
   \<and> fst (request sample_client (answering 401 JNull) ''/Contacts'' GET)
     = Inl (AuthenticationError ''Invalid or expired access token'')
   \<and> fst (request sample_client (refusing 400 \<lparr>ErrorJson.Message = Some ''Bad request'', Elements = None\<rparr>) ''/Contacts'' GET)
     = Inl (CrmApiError ''Bad request'' 400)
   \<and> fst (request sample_client (answering 204 JNull) ''/Contacts'' GET) = Inr JUndefined
   \<and> fst (request sample_client (answering 200 (JObj [(''Contacts'', JArr [])])) ''/Contacts'' GET)
     = Inr (JObj [(''Contacts'', JArr [])])"
proof -
  note c = response_classification [OF sample_headers, of _ "''/Contacts''" GET]
  have "fst (request sample_client (throttling no_headers) ''/Contacts'' GET)
     = Inl (RateLimitError ''Rate limit exceeded'' (Seconds 60))"
    by (simp add: request_def sample_headers throttling_def no_headers_def)
  moreover have "fst (request sample_client (answering 401 JNull) ''/Contacts'' GET)
     = Inl (AuthenticationError ''Invalid or expired access token'')"
    by (simp add: request_def sample_headers answering_def)
  moreover have "fst (request sample_client (refusing 400 \<lparr>ErrorJson.Message = Some ''Bad request'', Elements = None\<rparr>) ''/Contacts'' GET)
     = Inl (CrmApiError ''Bad request'' 400)"
    using c [of "refusing 400 \<lparr>ErrorJson.Message = Some ''Bad request'', Elements = None\<rparr>"
               "\<lparr>HttpResponse.status = 400, headers_get = no_headers,
                 text_json = Some \<lparr>ErrorJson.Message = Some ''Bad request'', Elements = None\<rparr>, json = None\<rparr>"]
    by (simp add: refusing_def ok_def described_message_def)
  moreover have "fst (request sample_client (answering 204 JNull) ''/Contacts'' GET) = Inr JUndefined"
    using c [of "answering 204 JNull"
               "\<lparr>HttpResponse.status = 204, headers_get = no_headers, text_json = None, json = Some JNull\<rparr>"]
    by (simp add: answering_def)
  moreover have "fst (request sample_client (answering 200 (JObj [(''Contacts'', JArr [])])) ''/Contacts'' GET)
     = Inr (JObj [(''Contacts'', JArr [])])"
    using c [of "answering 200 (JObj [(''Contacts'', JArr [])])"
               "\<lparr>HttpResponse.status = 200, headers_get = no_headers, text_json = None,
                 json = Some (JObj [(''Contacts'', JArr [])])\<rparr>" "JObj [(''Contacts'', JArr [])]"]
    by (simp add: answering_def ok_def)
  ultimately show ?thesis by blast
qed

text \<open>
  C4 as stated fails on a body whose \<^verbatim>\<open>Message\<close> is present and empty: the helper
  tests the message for truthiness, so the error carries the generic text.
\<close>

theorem empty_message_counterexample:
  "fst (request sample_client (refusing 400 \<lparr>ErrorJson.Message = Some [], Elements = None\<rparr>) ''/Contacts'' GET)
     = Inl (CrmApiError ''Xero API error: 400'' 400)"
  by (simp add: request_def sample_headers refusing_def ok_def api_error_message_def js_string_def
      string_of_nat.simps digit_char_def)

subsection \<open>Credentials\<close>

lemma request_without_credentials:
  assumes "accessToken (credentials this) = [] \<or> tenantId (credentials this) = []"
  shows "request this remote endpoint options = (Inl (AuthenticationError (missing_credential this)), [])"
  using assms by (auto simp: request_def getAuthHeaders_def missing_credential_def)

lemmas operation_defs =
  listContacts_def getContact_def updateContact_def listAccounts_def listInvoices_def getInvoice_def
  updateInvoice_def listPayments_def getPayment_def createPayment_def listBankTransactions_def
  getBankTransaction_def updateBankTransaction_def getItem_def updateItem_def

lemma no_tenant: "tenantId (credentials no_tenant_client) = []"
  by (simp add: no_tenant_client_def createXeroClient_def)

text \<open>
  C5, as amended. When the access token or the tenant identifier is empty (a missing
  header is parsed as the empty string), the credential resolver rejects the
  credentials, and every operation other than \<open>testConnection\<close> fails with the
  credential error (an \<open>AuthenticationError\<close> that names the missing header) and
  sends no request; \<open>testConnection\<close> sends no request either, but returns
  \<open>connected = False\<close> with that message instead of failing.
\<close>

theorem credential_gate:
  assumes "accessToken (credentials this) = [] \<or> tenantId (credentials this) = []"
  shows "(\<exists>m. validateCredentials (credentials this) = Inl (Error m))
       \<and> testConnection this remote = (\<lparr>connected = False, message = missing_credential this\<rparr>, [])
       \<and> listContacts this remote contactParams = (Inl (AuthenticationError (missing_credential this)), [])
       \<and> getContact this remote ident = (Inl (AuthenticationError (missing_credential this)), [])
       \<and> updateContact this remote ident c = (Inl (AuthenticationError (missing_credential this)), [])
       \<and> listAccounts this remote accountParams = (Inl (AuthenticationError (missing_credential this)), [])
       \<and> listInvoices this remote invoiceParams = (Inl (AuthenticationError (missing_credential this)), [])
       \<and> getInvoice this remote ident = (Inl (AuthenticationError (missing_credential this)), [])
       \<and> updateInvoice this remote ident i = (Inl (AuthenticationError (missing_credential this)), [])
       \<and> listPayments this remote params = (Inl (AuthenticationError (missing_credential this)), [])
       \<and> getPayment this remote ident = (Inl (AuthenticationError (missing_credential this)), [])
       \<and> createPayment this remote pay = (Inl (AuthenticationError (missing_credential this)), [])
       \<and> listBankTransactions this remote params = (Inl (AuthenticationError (missing_credential this)), [])
       \<and> getBankTransaction this remote ident = (Inl (AuthenticationError (missing_credential this)), [])
       \<and> updateBankTransaction this remote ident txn = (Inl (AuthenticationError (missing_credential this)), [])
       \<and> getItem this remote ident = (Inl (AuthenticationError (missing_credential this)), [])
       \<and> updateItem this remote ident itm = (Inl (AuthenticationError (missing_credential this)), [])"
  using assms
  by (auto simp: operation_defs testConnection_def request_without_credentials [OF assms] and_then_def
      validateCredentials_def)

lemma absent_headers_parse_empty:
  "accessToken (parseTenantCredentials no_headers) = [] \<and> tenantId (parseTenantCredentials no_headers) = []"
  by (simp add: parseTenantCredentials_def no_headers_def)

theorem credential_gate_witness:
  "getInvoice no_tenant_client (answering 200 JNull) ''inv-1''
     = (Inl (AuthenticationError ''No tenant ID provided. Include X-Xero-Tenant-Id header.''), [])"
  using credential_gate [of no_tenant_client "answering 200 JNull"] no_tenant
  by (simp add: missing_credential_def no_tenant_client_def createXeroClient_def)

text \<open>
  C5 as stated fails for \<open>testConnection\<close>: with an empty tenant identifier the call
  does not fail, it returns a value.
\<close>

theorem testConnection_returns_without_credentials:
  "testConnection no_tenant_client (answering 200 JNull)
     = (\<lparr>connected = False, message = ''No tenant ID provided. Include X-Xero-Tenant-Id header.''\<rparr>, [])"
  by (simp add: testConnection_def request_def getAuthHeaders_def no_tenant_client_def createXeroClient_def and_then_def)


subsection \<open>Singular reads\<close>

lemma first_of_array:
  "get_prop data key = JArr xs \<Longrightarrow>
   first_of data key = Inr (case xs of [] \<Rightarrow> JUndefined | x # _ \<Rightarrow> x)"
  by (cases data) (auto simp: first_of_def and_then_def property_def split: list.splits)

lemma mappers_undefined:
  "mapContact JUndefined = Inl (TypeError ''Cannot read properties of undefined (reading ContactID)'')"
  "mapInvoice this JUndefined = Inl (TypeError ''Cannot read properties of undefined (reading Contact)'')"
  "mapPayment JUndefined = Inl (TypeError ''Cannot read properties of undefined (reading Invoice)'')"
  "mapItem JUndefined = Inl (TypeError ''Cannot read properties of undefined (reading PurchaseDetails)'')"
  "mapBankTransaction this JUndefined = Inl (TypeError ''Cannot read properties of undefined (reading Contact)'')"
  by (simp_all add: mapContact_def mapInvoice_def mapPayment_def mapItem_def mapBankTransaction_def property_def)

lemma split_request: "(case request this remote endpoint options of (r, calls) \<Rightarrow> f r calls) =
   f (fst (request this remote endpoint options)) (snd (request this remote endpoint options))"
  by (simp add: case_prod_beta)

text \<open>
  C6, as amended. A singular read decodes index 0 of the array under the plural key of
  the response envelope. When that array is empty, index 0 is undefined and the mapper
  throws a \<open>TypeError\<close> on its first property read: the failure is unclassified, not
  an API error.
\<close>

theorem singular_get_reads_first:
  "(fst (request this remote (''/Contacts/'' @ ident) GET) = Inr data \<and> get_prop data ''Contacts'' = JArr xs \<longrightarrow>
     fst (getContact this remote ident) =
       (case xs of [] \<Rightarrow> Inl (TypeError ''Cannot read properties of undefined (reading ContactID)'')
        | x # rest \<Rightarrow> mapContact x))
 \<and> (fst (request this remote (''/Invoices/'' @ ident) GET) = Inr data \<and> get_prop data ''Invoices'' = JArr xs \<longrightarrow>
     fst (getInvoice this remote ident) =
       (case xs of [] \<Rightarrow> Inl (TypeError ''Cannot read properties of undefined (reading Contact)'')
        | x # rest \<Rightarrow> mapInvoice (Some this) x))
 \<and> (fst (request this remote (''/Payments/'' @ ident) GET) = Inr data \<and> get_prop data ''Payments'' = JArr xs \<longrightarrow>
     fst (getPayment this remote ident) =
       (case xs of [] \<Rightarrow> Inl (TypeError ''Cannot read properties of undefined (reading Invoice)'')
        | x # rest \<Rightarrow> mapPayment x))
 \<and> (fst (request this remote (''/Items/'' @ ident) GET) = Inr data \<and> get_prop data ''Items'' = JArr xs \<longrightarrow>
     fst (getItem this remote ident) =
       (case xs of [] \<Rightarrow> Inl (TypeError ''Cannot read properties of undefined (reading PurchaseDetails)'')
        | x # rest \<Rightarrow> mapItem x))
 \<and> (fst (request this remote (''/BankTransactions/'' @ ident) GET) = Inr data \<and> get_prop data ''BankTransactions'' = JArr xs \<longrightarrow>
     fst (getBankTransaction this remote ident) =
       (case xs of [] \<Rightarrow> Inl (TypeError ''Cannot read properties of undefined (reading Contact)'')
        | x # rest \<Rightarrow> mapBankTransaction (Some this) x))"
  by (simp add: operation_defs split_request and_then_def first_of_array mappers_undefined split: list.splits)

lemma sample_base: "XeroClientImpl.baseUrl sample_client = ''https://api.xero.com/api.xro/2.0''"
  by (simp add: sample_client_def createXeroClient_def API_BASE_URL_def)

lemma sample_answer:
  "200 \<le> st \<Longrightarrow> st \<le> 299 \<Longrightarrow> st \<noteq> 204 \<Longrightarrow>
   request sample_client (answering st data) endpoint options =
     (Inr data, [\<lparr>HttpRequest.url = ''https://api.xero.com/api.xro/2.0'' @ endpoint,
                  httpMethod = RequestInit.httpMethod options,
                  headers = [(''Authorization'', ''Bearer token''), (''Xero-Tenant-Id'', ''tenant''),
                             (''Content-Type'', ''application/json''), (''Accept'', ''application/json'')],
                  body = RequestInit.body options\<rparr>])"
  by (simp add: request_def sample_headers answering_def ok_def Let_def sample_base)

theorem singular_get_reads_first_witness:
  "fst (getContact sample_client
         (answering 200 (JObj [(''Contacts'', JArr [JObj [(''ContactID'', JStr ''c-1'')], JObj [(''ContactID'', JStr ''c-2'')]])])) ''c-1'')
     = mapContact (JObj [(''ContactID'', JStr ''c-1'')])
   \<and> fst (getInvoice sample_client (answering 200 (JObj [(''Invoices'', JArr [])])) ''i-1'')
     = Inl (TypeError ''Cannot read properties of undefined (reading Contact)'')
   \<and> fst (getPayment sample_client (answering 200 (JObj [(''Payments'', JArr [JObj []])])) ''p-1'')
     = mapPayment (JObj [])
   \<and> fst (getItem sample_client (answering 200 (JObj [(''Items'', JArr [])])) ''it-1'')
     = Inl (TypeError ''Cannot read properties of undefined (reading PurchaseDetails)'')
   \<and> fst (getBankTransaction sample_client (answering 200 (JObj [(''BankTransactions'', JArr [JObj []])])) ''b-1'')
     = mapBankTransaction (Some sample_client) (JObj [])"
  using
    singular_get_reads_first [of sample_client
      "answering 200 (JObj [(''Contacts'', JArr [JObj [(''ContactID'', JStr ''c-1'')], JObj [(''ContactID'', JStr ''c-2'')]])])"
      "''c-1''" "JObj [(''Contacts'', JArr [JObj [(''ContactID'', JStr ''c-1'')], JObj [(''ContactID'', JStr ''c-2'')]])]"
      "[JObj [(''ContactID'', JStr ''c-1'')], JObj [(''ContactID'', JStr ''c-2'')]]"]
    singular_get_reads_first [of sample_client "answering 200 (JObj [(''Invoices'', JArr [])])"
      "''i-1''" "JObj [(''Invoices'', JArr [])]" "[]"]
    singular_get_reads_first [of sample_client "answering 200 (JObj [(''Payments'', JArr [JObj []])])"
      "''p-1''" "JObj [(''Payments'', JArr [JObj []])]" "[JObj []]"]
    singular_get_reads_first [of sample_client "answering 200 (JObj [(''Items'', JArr [])])"
      "''it-1''" "JObj [(''Items'', JArr [])]" "[]"]
    singular_get_reads_first [of sample_client "answering 200 (JObj [(''BankTransactions'', JArr [JObj []])])"
      "''b-1''" "JObj [(''BankTransactions'', JArr [JObj []])]" "[JObj []]"]
  by (simp add: sample_answer)

text \<open>
  C6 as stated fails on a 200 response with an empty \<^verbatim>\<open>Contacts\<close> array: the result is
  a \<open>TypeError\<close>, not an API error.
\<close>

theorem empty_collection_counterexample:
  "fst (getContact sample_client (answering 200 (JObj [(''Contacts'', JArr [])])) ''c-1'')
     = Inl (TypeError ''Cannot read properties of undefined (reading ContactID)'')"
  by (simp add: getContact_def sample_answer and_then_def first_of_def property_def mapContact_def)

subsection \<open>Pagination\<close>

lemma map_err_length: "map_err f ws = Inr ys \<Longrightarrow> length ys = length ws"
  by (induction ws arbitrary: ys) (auto split: sum.splits)

lemma all_of_array:
  "get_prop data key = JArr ws \<Longrightarrow> all_of data key f = map_err f ws"
  by (cases data) (auto simp: all_of_def and_then_def property_def array_map_def)

lemma mapInvoice_unbound_error: "mapInvoice None w = Inl e \<Longrightarrow> \<exists>m. e = TypeError m"
  by (auto simp: mapInvoice_def mapLineItems_def property_def split: sum.splits if_splits)

lemma mapInvoice_unbound_lines:
  "\<not> nullish (get_prop w ''LineItems'') \<Longrightarrow> \<exists>m. mapInvoice None w = Inl (TypeError m)"
  by (cases w) (auto simp: mapInvoice_def mapLineItems_def property_def split: sum.splits)

lemma map_err_unbound:
  "w \<in> set ws \<Longrightarrow> \<not> nullish (get_prop w ''LineItems'') \<Longrightarrow> \<exists>m. map_err (mapInvoice None) ws = Inl (TypeError m)"
proof (induction ws)
  case Nil then show ?case by simp
next
  case (Cons x xs)
  show ?case
  proof (cases "mapInvoice None x")
    case (Inl e)
    then show ?thesis using mapInvoice_unbound_error [OF Inl] by auto
  next
    case (Inr y)
    with Cons.prems mapInvoice_unbound_lines [of x] have "w \<in> set xs" by auto
    from Cons.IH [OF this Cons.prems(2)] Inr show ?thesis by auto
  qed
qed

lemma map_err_replicate: "f x = Inr y \<Longrightarrow> map_err f (replicate n x) = Inr (replicate n y)"
  by (induction n) simp_all

text \<open>
  C7. When the remote side answers a list request with an array of \<open>n\<close> records that
  decode, \<open>listContacts\<close>, \<open>listPayments\<close>, \<open>listBankTransactions\<close> and
  \<open>listInvoices\<close> return a page with those \<open>n\<close> items, whose \<open>count\<close> is \<open>n\<close> and
  whose \<open>hasMore\<close> flag is true if and only if \<open>n\<close> is at least 100; \<open>hasMoreItems\<close>
  with the default page size is the same test. \<open>listInvoices\<close> hands \<^verbatim>\<open>this.mapInvoice\<close>
  to \<^verbatim>\<open>map\<close> without its receiver, where \<open>listBankTransactions\<close> binds it: an invoice
  that carries line items does not decode there, and the operation throws a
  \<open>TypeError\<close> instead of returning a page and its flag.
\<close>

theorem has_more_at_page_ceiling:
  assumes "\<forall>endpoint. fst (request this remote endpoint GET) = Inr data"
  shows "(get_prop data ''Contacts'' = JArr ws \<and> map_err mapContact ws = Inr cs \<longrightarrow>
            (\<exists>pg. fst (listContacts this remote contactParams) = Inr pg \<and> items pg = cs
               \<and> count pg = length ws \<and> hasMore pg = (100 \<le> length ws)))
       \<and> (get_prop data ''Payments'' = JArr ws \<and> map_err mapPayment ws = Inr ps \<longrightarrow>
            (\<exists>pg. fst (listPayments this remote params) = Inr pg \<and> items pg = ps
               \<and> count pg = length ws \<and> hasMore pg = (100 \<le> length ws)))
       \<and> (get_prop data ''BankTransactions'' = JArr ws \<and> map_err (mapBankTransaction (Some this)) ws = Inr bs \<longrightarrow>
            (\<exists>pg. fst (listBankTransactions this remote params) = Inr pg \<and> items pg = bs
               \<and> count pg = length ws \<and> hasMore pg = (100 \<le> length ws)))
       \<and> (get_prop data ''Invoices'' = JArr ws \<and> map_err (mapInvoice None) ws = Inr ivs \<longrightarrow>
            (\<exists>pg. fst (listInvoices this remote invoiceParams) = Inr pg \<and> items pg = ivs
               \<and> count pg = length ws \<and> hasMore pg = (100 \<le> length ws)))
       \<and> (get_prop data ''Invoices'' = JArr ws \<and> (\<exists>w \<in> set ws. \<not> nullish (get_prop w ''LineItems'')) \<longrightarrow>
            (\<exists>m. fst (listInvoices this remote invoiceParams) = Inl (TypeError m)))
       \<and> hasMoreItems n None = (100 \<le> n)"
proof (intro conjI impI; (elim conjE)?)
  assume "get_prop data ''Contacts'' = JArr ws" "map_err mapContact ws = Inr cs"
  then show "\<exists>pg. fst (listContacts this remote contactParams) = Inr pg \<and> items pg = cs
               \<and> count pg = length ws \<and> hasMore pg = (100 \<le> length ws)"
    using assms map_err_length [of mapContact ws cs]
    by (simp add: listContacts_def split_request Let_def and_then_def all_of_array paginated_def)
next
  assume "get_prop data ''Payments'' = JArr ws" "map_err mapPayment ws = Inr ps"
  then show "\<exists>pg. fst (listPayments this remote params) = Inr pg \<and> items pg = ps
               \<and> count pg = length ws \<and> hasMore pg = (100 \<le> length ws)"
    using assms map_err_length [of mapPayment ws ps]
    by (simp add: listPayments_def split_request Let_def and_then_def all_of_array paginated_def)
next
  assume "get_prop data ''BankTransactions'' = JArr ws" "map_err (mapBankTransaction (Some this)) ws = Inr bs"
  then show "\<exists>pg. fst (listBankTransactions this remote params) = Inr pg \<and> items pg = bs
               \<and> count pg = length ws \<and> hasMore pg = (100 \<le> length ws)"
    using assms map_err_length [of "mapBankTransaction (Some this)" ws bs]
    by (simp add: listBankTransactions_def split_request Let_def and_then_def all_of_array paginated_def)
next
  assume "get_prop data ''Invoices'' = JArr ws" "map_err (mapInvoice None) ws = Inr ivs"
  then show "\<exists>pg. fst (listInvoices this remote invoiceParams) = Inr pg \<and> items pg = ivs
               \<and> count pg = length ws \<and> hasMore pg = (100 \<le> length ws)"
    using assms map_err_length [of "mapInvoice None" ws ivs]
    by (simp add: listInvoices_def split_request Let_def and_then_def all_of_array paginated_def)
next
  assume d: "get_prop data ''Invoices'' = JArr ws" and "\<exists>w \<in> set ws. \<not> nullish (get_prop w ''LineItems'')"
  then obtain m where "map_err (mapInvoice None) ws = Inl (TypeError m)"
    using map_err_unbound by blast
  then show "\<exists>m. fst (listInvoices this remote invoiceParams) = Inl (TypeError m)"
    using assms d
    by (simp add: listInvoices_def split_request Let_def and_then_def all_of_array)
next
  show "hasMoreItems n None = (100 \<le> n)" by (simp add: hasMoreItems_def)
qed

lemma map_err_replicate_fails: "f x = Inl e \<Longrightarrow> 0 < n \<Longrightarrow> map_err f (replicate n x) = Inl e"
  by (cases n) simp_all

lemma listed_records_decode:
  "\<exists>c. mapContact acme_wire = Inr c"
  "\<exists>p. mapPayment payment_wire = Inr p"
  "\<exists>b. mapBankTransaction (Some this) spend_wire = Inr b"
  "\<exists>i. mapInvoice None summary_invoice_wire = Inr i"
  "mapInvoice None invoice_wire = Inl (TypeError ''Cannot read properties of undefined (reading mapLineItem)'')"
  by (simp_all add: mapContact_def acme_wire_def mapPayment_def payment_wire_def mapBankTransaction_def
      spend_wire_def mapInvoice_def summary_invoice_wire_def invoice_wire_def mapLineItems_def
      array_map_def mapLineItem_def property_def Let_def)

lemma sample_reads: "\<forall>endpoint. fst (request sample_client (answering 200 data) endpoint GET) = Inr data"
  by (simp add: sample_answer)

lemma get_listing: "get_prop (listing key n w) key = JArr (replicate n w)"
  by (simp add: listing_def)

theorem has_more_at_page_ceiling_witness:
  "map_sum id (\<lambda>pg. (count pg, hasMore pg))
     (fst (listContacts sample_client (answering 200 (listing ''Contacts'' 100 acme_wire)) no_contact_filter)) = Inr (100, True)
 \<and> map_sum id (\<lambda>pg. (count pg, hasMore pg))
     (fst (listPayments sample_client (answering 200 (listing ''Payments'' 99 payment_wire)) no_pagination)) = Inr (99, False)
 \<and> map_sum id (\<lambda>pg. (count pg, hasMore pg))
     (fst (listBankTransactions sample_client (answering 200 (listing ''BankTransactions'' 100 spend_wire)) no_pagination)) = Inr (100, True)
 \<and> map_sum id (\<lambda>pg. (count pg, hasMore pg))
     (fst (listInvoices sample_client (answering 200 (listing ''Invoices'' 100 summary_invoice_wire)) no_invoice_filter)) = Inr (100, True)
 \<and> fst (listInvoices sample_client (answering 200 (listing ''Invoices'' 100 invoice_wire)) no_invoice_filter)
       = Inl (TypeError ''Cannot read properties of undefined (reading mapLineItem)'')"
proof -
  obtain c where c: "mapContact acme_wire = Inr c" using listed_records_decode(1) by blast
  obtain p where p: "mapPayment payment_wire = Inr p" using listed_records_decode(2) by blast
  obtain b where b: "mapBankTransaction (Some sample_client) spend_wire = Inr b" using listed_records_decode(3) by blast
  obtain i where i: "mapInvoice None summary_invoice_wire = Inr i" using listed_records_decode(4) by blast
  have 1: "map_sum id (\<lambda>pg. (count pg, hasMore pg))
     (fst (listContacts sample_client (answering 200 (listing ''Contacts'' 100 acme_wire)) no_contact_filter)) = Inr (100, True)"
    using has_more_at_page_ceiling [OF sample_reads [of "listing ''Contacts'' 100 acme_wire"], where ws = "replicate 100 acme_wire" and cs = "replicate 100 c"
        and contactParams = no_contact_filter, THEN conjunct1]
      c map_err_replicate [of mapContact acme_wire c 100]
    by (auto simp: get_listing)
  have 2: "map_sum id (\<lambda>pg. (count pg, hasMore pg))
     (fst (listPayments sample_client (answering 200 (listing ''Payments'' 99 payment_wire)) no_pagination)) = Inr (99, False)"
    using has_more_at_page_ceiling [OF sample_reads [of "listing ''Payments'' 99 payment_wire"], where ws = "replicate 99 payment_wire" and ps = "replicate 99 p"
        and params = no_pagination, THEN conjunct2, THEN conjunct1]
      p map_err_replicate [of mapPayment payment_wire p 99]
    by (auto simp: get_listing)
  have 3: "map_sum id (\<lambda>pg. (count pg, hasMore pg))
     (fst (listBankTransactions sample_client (answering 200 (listing ''BankTransactions'' 100 spend_wire)) no_pagination)) = Inr (100, True)"
    using has_more_at_page_ceiling [OF sample_reads [of "listing ''BankTransactions'' 100 spend_wire"], where ws = "replicate 100 spend_wire" and bs = "replicate 100 b"
        and params = no_pagination, THEN conjunct2, THEN conjunct2, THEN conjunct1]
      b map_err_replicate [of "mapBankTransaction (Some sample_client)" spend_wire b 100]
    by (auto simp: get_listing)
  have 4: "map_sum id (\<lambda>pg. (count pg, hasMore pg))
     (fst (listInvoices sample_client (answering 200 (listing ''Invoices'' 100 summary_invoice_wire)) no_invoice_filter)) = Inr (100, True)"
    using has_more_at_page_ceiling [OF sample_reads [of "listing ''Invoices'' 100 summary_invoice_wire"], where ws = "replicate 100 summary_invoice_wire" and ivs = "replicate 100 i"
        and invoiceParams = no_invoice_filter, THEN conjunct2, THEN conjunct2, THEN conjunct2, THEN conjunct1]
      i map_err_replicate [of "mapInvoice None" summary_invoice_wire i 100]
    by (auto simp: get_listing)
  have "\<not> nullish (get_prop invoice_wire ''LineItems'')" by (simp add: invoice_wire_def)
  then have 5: "\<exists>m. fst (listInvoices sample_client (answering 200 (listing ''Invoices'' 100 invoice_wire)) no_invoice_filter)
       = Inl (TypeError m)"
    using has_more_at_page_ceiling [OF sample_reads [of "listing ''Invoices'' 100 invoice_wire"], where ws = "replicate 100 invoice_wire"
        and invoiceParams = no_invoice_filter, THEN conjunct2, THEN conjunct2, THEN conjunct2, THEN conjunct2, THEN conjunct1]
    by (auto simp: get_listing)
  have 6: "fst (listInvoices sample_client (answering 200 (listing ''Invoices'' 100 invoice_wire)) no_invoice_filter)
       = Inl (TypeError ''Cannot read properties of undefined (reading mapLineItem)'')"
    by (simp add: listInvoices_def sample_answer Let_def and_then_def all_of_array get_listing
        map_err_replicate_fails listed_records_decode(5) no_invoice_filter_def)
  from 1 2 3 4 5 6 show ?thesis by blast
qed


subsection \<open>Account filter\<close>

lemma form_encode_where: "form_encode ''where'' = ''where''"
  by (simp add: form_encode_def form_encode_char_def form_unreserved_def)

lemma request_calls:
  "req \<in> set (snd (request this remote endpoint options)) \<Longrightarrow>
     HttpRequest.url req = XeroClientImpl.baseUrl this @ endpoint
     \<and> HttpRequest.httpMethod req = RequestInit.httpMethod options
     \<and> HttpRequest.body req = RequestInit.body options"
  by (cases "getAuthHeaders this")
     (auto simp: request_def Let_def split: fetch_result.splits)

lemma listAccounts_query_class:
  "classType params = Some c \<Longrightarrow> c \<noteq> [] \<Longrightarrow>
   listAccounts_query params = [(''where'', ''Class=='' @ [CHR 0x22] @ c @ [CHR 0x22])]"
  by (simp add: listAccounts_query_def set_if_truthy_def js_string_def text_of_def split: option.splits)

lemma with_query_single:
  "with_query path [(''where'', v)] = path @ ''?where='' @ form_encode v"
  by (simp add: with_query_def URLSearchParams_toString_def form_encode_where)

text \<open>
  C9, as amended. When \<open>listAccounts\<close> is given a class type that is not the empty
  string, the query holds the single parameter \<^verbatim>\<open>where\<close> with the value
  \<^verbatim>\<open>Class=="<classType>"\<close>, whatever \<^verbatim>\<open>where\<close> filter the caller gave, and the request
  goes to \<^verbatim>\<open>/Accounts?where=\<close> followed by that value, form-encoded.
\<close>

theorem class_filter_replaces_where:
  assumes "classType params = Some c" and "c \<noteq> []"
  shows "listAccounts_query params = [(''where'', ''Class=='' @ [CHR 0x22] @ c @ [CHR 0x22])]
       \<and> (\<forall>req \<in> set (snd (listAccounts this remote params)).
             HttpRequest.url req = XeroClientImpl.baseUrl this @ ''/Accounts?where=''
                @ form_encode (''Class=='' @ [CHR 0x22] @ c @ [CHR 0x22]))"
proof (intro conjI ballI)
  show q: "listAccounts_query params = [(''where'', ''Class=='' @ [CHR 0x22] @ c @ [CHR 0x22])]"
    using assms by (rule listAccounts_query_class)
  fix req assume "req \<in> set (snd (listAccounts this remote params))"
  then have "req \<in> set (snd (request this remote
      (''/Accounts'' @ ''?where='' @ form_encode (''Class=='' @ [CHR 0x22] @ c @ [CHR 0x22])) GET))"
    by (simp add: listAccounts_def q with_query_single split_request Let_def)
  from request_calls [OF this]
  show "HttpRequest.url req = XeroClientImpl.baseUrl this @ ''/Accounts?where=''
                @ form_encode (''Class=='' @ [CHR 0x22] @ c @ [CHR 0x22])"
    by simp
qed

theorem class_filter_replaces_where_witness:
  "listAccounts_query asset_filter = [(''where'', ''Class=='' @ [CHR 0x22] @ ''ASSET'' @ [CHR 0x22])]
   \<and> map HttpRequest.url (snd (listAccounts sample_client (answering 200 (JObj [(''Accounts'', JArr [])])) asset_filter))
       = [''https://api.xero.com/api.xro/2.0/Accounts?where=Class%3D%3D%22ASSET%22'']"
proof -
  have c: "classType asset_filter = Some ''ASSET''" by (simp add: asset_filter_def)
  note t = class_filter_replaces_where [OF c, of sample_client "answering 200 (JObj [(''Accounts'', JArr [])])"]
  have calls: "\<exists>req. snd (listAccounts sample_client (answering 200 (JObj [(''Accounts'', JArr [])])) asset_filter) = [req]"
    by (simp add: listAccounts_def split_request Let_def sample_answer)
  then obtain req where r: "snd (listAccounts sample_client (answering 200 (JObj [(''Accounts'', JArr [])])) asset_filter) = [req]"
    by blast
  with t have "HttpRequest.url req = XeroClientImpl.baseUrl sample_client @ ''/Accounts?where=''
                @ form_encode (''Class=='' @ [CHR 0x22] @ ''ASSET'' @ [CHR 0x22])"
    by simp
  then show ?thesis using t r
    by (simp add: sample_base form_encode_def form_encode_char_def form_unreserved_def hex_digit_def)
qed

text \<open>
  C9 as stated fails for the empty class type: the guard \<^verbatim>\<open>if (params?.classType)\<close> is
  a truthiness test, so with \<^verbatim>\<open>where\<close> \<^verbatim>\<open>Status=ACTIVE\<close> and class type \<^verbatim>\<open>""\<close> the
  caller's filter is kept and sent.
\<close>

theorem empty_class_keeps_where_counterexample:
  "ListAccountsParams.where' blank_class_filter = Some ''Status=ACTIVE''
 \<and> classType blank_class_filter = Some []
 \<and> listAccounts_query blank_class_filter = [(''where'', ''Status=ACTIVE'')]
 \<and> listAccounts_query blank_class_filter \<noteq> [(''where'', ''Class=='' @ [CHR 0x22] @ [] @ [CHR 0x22])]
 \<and> map HttpRequest.url (snd (listAccounts sample_client (answering 200 (JObj [(''Accounts'', JArr [])])) blank_class_filter))
       = [''https://api.xero.com/api.xro/2.0/Accounts?where=Status%3DACTIVE'']"
  by (simp add: blank_class_filter_def listAccounts_query_def set_if_truthy_def js_string_def text_of_def
      listAccounts_def sample_answer with_query_def URLSearchParams_toString_def form_encode_def
      form_encode_char_def form_unreserved_def hex_digit_def Let_def)

subsection \<open>Connection test\<close>

text \<open>
  C10. \<open>testConnection\<close> always returns: when the request fails, or when the decoded
  body has no first organisation to read, it returns \<open>connected = False\<close> with the
  message of the error; otherwise it returns \<open>connected = True\<close>. It sends what the
  request helper sends. Every other operation fails with the error of its request.
\<close>

theorem testConnection_swallows_failures:
  "(fst (request this remote ''/Organisation'' GET) = Inl e \<longrightarrow>
      fst (testConnection this remote) = \<lparr>connected = False, message = error_message e\<rparr>)
 \<and> (fst (request this remote ''/Organisation'' GET) = Inr data \<and> first_of data ''Organisations'' = Inl e \<longrightarrow>
      fst (testConnection this remote) = \<lparr>connected = False, message = error_message e\<rparr>)
 \<and> (fst (request this remote ''/Organisation'' GET) = Inr data \<and> first_of data ''Organisations'' = Inr org \<longrightarrow>
      fst (testConnection this remote) = \<lparr>connected = True, message = connected_message org\<rparr>)
 \<and> snd (testConnection this remote) = snd (request this remote ''/Organisation'' GET)
 \<and> ((\<forall>endpoint options. fst (request this remote endpoint options) = Inl e) \<longrightarrow>
      fst (listContacts this remote contactParams) = Inl e
    \<and> fst (getContact this remote ident) = Inl e
    \<and> fst (updateContact this remote ident c) = Inl e
    \<and> fst (listAccounts this remote accountParams) = Inl e
    \<and> fst (listInvoices this remote invoiceParams) = Inl e
    \<and> fst (getInvoice this remote ident) = Inl e
    \<and> fst (updateInvoice this remote ident i) = Inl e
    \<and> fst (listPayments this remote params) = Inl e
    \<and> fst (getPayment this remote ident) = Inl e
    \<and> fst (createPayment this remote pay) = Inl e
    \<and> fst (listBankTransactions this remote params) = Inl e
    \<and> fst (getBankTransaction this remote ident) = Inl e
    \<and> fst (updateBankTransaction this remote ident txn) = Inl e
    \<and> fst (getItem this remote ident) = Inl e
    \<and> fst (updateItem this remote ident itm) = Inl e)"
  by (simp add: testConnection_def operation_defs split_request and_then_def Let_def)


lemma sample_unreachable:
  "fst (request sample_client unreachable endpoint options) = Inl (FetchFailed ''fetch failed'')"
  by (simp add: request_def sample_headers unreachable_def Let_def)

theorem testConnection_swallows_failures_witness:
  "fst (testConnection sample_client unreachable) = \<lparr>connected = False, message = ''fetch failed''\<rparr>
 \<and> fst (testConnection sample_client (answering 200 (JObj []))) =
      \<lparr>connected = False, message = ''Cannot read properties of undefined (reading 0)''\<rparr>
 \<and> fst (testConnection sample_client
        (answering 200 (JObj [(''Organisations'', JArr [JObj [(''Name'', JStr ''Demo Company'')]])]))) =
      \<lparr>connected = True, message = ''Connected to Xero''\<rparr>
 \<and> fst (getContact sample_client unreachable ''c-1'') = Inl (FetchFailed ''fetch failed'')"
proof -
  have 1: "fst (testConnection sample_client unreachable) = \<lparr>connected = False, message = ''fetch failed''\<rparr>"
    using testConnection_swallows_failures [where this = sample_client and remote = unreachable
        and e = "FetchFailed ''fetch failed''"] sample_unreachable
    by simp
  have 2: "fst (testConnection sample_client (answering 200 (JObj []))) =
      \<lparr>connected = False, message = ''Cannot read properties of undefined (reading 0)''\<rparr>"
    using testConnection_swallows_failures [where this = sample_client and remote = "answering 200 (JObj [])"
        and data = "JObj []" and e = "TypeError ''Cannot read properties of undefined (reading 0)''"]
    by (simp add: sample_answer first_of_def and_then_def property_def)
  have 3: "fst (testConnection sample_client
        (answering 200 (JObj [(''Organisations'', JArr [JObj [(''Name'', JStr ''Demo Company'')]])]))) =
      \<lparr>connected = True, message = ''Connected to Xero''\<rparr>"
    using testConnection_swallows_failures [where this = sample_client
        and remote = "answering 200 (JObj [(''Organisations'', JArr [JObj [(''Name'', JStr ''Demo Company'')]])])"
        and data = "JObj [(''Organisations'', JArr [JObj [(''Name'', JStr ''Demo Company'')]])]"
        and org = "JObj [(''Name'', JStr ''Demo Company'')]"]
    by (simp add: sample_answer first_of_def and_then_def property_def connected_message_def opt_chain_def
        js_string_def)
  have 4: "fst (getContact sample_client unreachable ''c-1'') = Inl (FetchFailed ''fetch failed'')"
    using testConnection_swallows_failures [where this = sample_client and remote = unreachable
        and e = "FetchFailed ''fetch failed''" and ident = "''c-1''"] sample_unreachable
    by simp
  show ?thesis using 1 2 3 4 by simp
qed

subsection \<open>Sparse payloads\<close>

lemma key_if_Int: "key_if b k \<inter> S = (if b \<and> k \<in> S then {k} else {})"
  by (simp add: key_if_def)

lemma excluded_disjoint:
  "sent_contact_keys c \<inter> set contact_excluded = {}"
  "sent_invoice_keys i \<inter> set invoice_excluded = {}"
  "sent_payment_keys p \<inter> set payment_excluded = {}"
  "sent_item_keys it \<inter> set item_excluded = {}"
  "sent_bank_transaction_keys b \<inter> set bank_transaction_excluded = {}"
  by (simp_all add: sent_contact_keys_def contact_excluded_def sent_invoice_keys_def invoice_excluded_def
      sent_payment_keys_def payment_excluded_def sent_item_keys_def item_excluded_def
      sent_bank_transaction_keys_def bank_transaction_excluded_def Int_Un_distrib2 key_if_Int)

text \<open>
  C1, as amended. For contacts, invoices, payments, items and bank transactions and
  any wire sample that decodes, \<^verbatim>\<open>fromWire(toWire(fromWire(sample)))\<close> reproduces every
  field that \<^verbatim>\<open>toWire\<close> emits for that sample: each emitted string or number that is
  not empty or zero, each boolean, each nested reference by its identifier, each line
  item by its emitted fields; an empty string or a zero amount comes back undefined.
  The keys excluded by design (the entity's identifier, money totals, timestamps) never
  appear in the \<^verbatim>\<open>toWire\<close> output, and the corresponding fields come back undefined.
\<close>

theorem round_trip_keeps_emitted_fields:
  "(mapContact w = Inr c \<longrightarrow>
      round_trip_contact w = Inr (echo_contact c)
      \<and> keys (mapContactToXero c) \<inter> set contact_excluded = {})
 \<and> (mapInvoice (Some this) w = Inr i \<longrightarrow>
      round_trip_invoice this w = Inr (echo_invoice i)
      \<and> keys (mapInvoiceToXero i) \<inter> set invoice_excluded = {})
 \<and> (mapPayment w = Inr p \<longrightarrow>
      round_trip_payment w = Inr (echo_payment p)
      \<and> keys (mapPaymentToXero p) \<inter> set payment_excluded = {})
 \<and> (mapItem w = Inr it \<longrightarrow>
      round_trip_item w = Inr (echo_item it)
      \<and> keys (mapItemToXero it) \<inter> set item_excluded = {})
 \<and> (mapBankTransaction (Some this) w = Inr b \<longrightarrow>
      round_trip_bank_transaction this w = Inr (echo_bank_transaction b)
      \<and> keys (mapBankTransactionToXero b) \<inter> set bank_transaction_excluded = {})"
  by (simp add: round_trip_contact_def round_trip_invoice_def round_trip_payment_def round_trip_item_def
      round_trip_bank_transaction_def and_then_def contact_round_trip invoice_round_trip
      payment_round_trip item_round_trip bank_transaction_round_trip
      contact_keys invoice_keys payment_keys item_keys bank_transaction_keys excluded_disjoint)

lemma sample_decodings:
  "\<exists>c. mapContact acme_wire = Inr c \<and> XeroContact.name c = Some ''Acme'' \<and> firstName c = Some []
       \<and> XeroContact.contactId c = Some ''c-1''"
  "\<exists>i. mapInvoice (Some sample_client) invoice_wire = Inr i \<and> XeroInvoice.type i = Some ''ACCREC''
       \<and> XeroInvoice.total i = Some 100"
  "\<exists>p. mapPayment payment_wire = Inr p \<and> XeroPayment.reference p = Some ''deposit'' \<and> amount p = Some 0"
  "\<exists>it. mapItem item_wire = Inr it \<and> XeroItem.code it = Some ''W-1'' \<and> isTrackedAsInventory it = Some False"
  "\<exists>b. mapBankTransaction (Some sample_client) bank_wire = Inr b \<and> XeroBankTransaction.type b = Some ''SPEND''"
  by (simp_all add: mapContact_def acme_wire_def mapInvoice_def invoice_wire_def mapLineItems_def array_map_def
      mapLineItem_def mapPayment_def payment_wire_def mapItem_def item_wire_def mapBankTransaction_def
      bank_wire_def Let_def)

theorem round_trip_keeps_emitted_fields_witness:
  "map_sum id XeroContact.name (round_trip_contact acme_wire) = Inr (Some ''Acme'')
 \<and> map_sum id XeroContact.contactId (round_trip_contact acme_wire) = Inr None
 \<and> map_sum id XeroInvoice.type (round_trip_invoice sample_client invoice_wire) = Inr (Some ''ACCREC'')
 \<and> map_sum id XeroInvoice.total (round_trip_invoice sample_client invoice_wire) = Inr None
 \<and> map_sum id XeroPayment.reference (round_trip_payment payment_wire) = Inr (Some ''deposit'')
 \<and> map_sum id XeroItem.isTrackedAsInventory (round_trip_item item_wire) = Inr (Some False)
 \<and> map_sum id XeroBankTransaction.type (round_trip_bank_transaction sample_client bank_wire) = Inr (Some ''SPEND'')"
proof -
  obtain c where c: "mapContact acme_wire = Inr c" "XeroContact.name c = Some ''Acme''"
    using sample_decodings(1) by blast
  obtain i where i: "mapInvoice (Some sample_client) invoice_wire = Inr i" "XeroInvoice.type i = Some ''ACCREC''"
    using sample_decodings(2) by blast
  obtain p where p: "mapPayment payment_wire = Inr p" "XeroPayment.reference p = Some ''deposit''"
    using sample_decodings(3) by blast
  obtain it where it: "mapItem item_wire = Inr it" "isTrackedAsInventory it = Some False"
    using sample_decodings(4) by blast
  obtain b where b: "mapBankTransaction (Some sample_client) bank_wire = Inr b" "XeroBankTransaction.type b = Some ''SPEND''"
    using sample_decodings(5) by blast
  from round_trip_keeps_emitted_fields [where w = acme_wire and c = c] c
  have 1: "round_trip_contact acme_wire = Inr (echo_contact c)" by simp
  from round_trip_keeps_emitted_fields [where w = invoice_wire and this = sample_client and i = i] i
  have 2: "round_trip_invoice sample_client invoice_wire = Inr (echo_invoice i)" by simp
  from round_trip_keeps_emitted_fields [where w = payment_wire and p = p] p
  have 3: "round_trip_payment payment_wire = Inr (echo_payment p)" by simp
  from round_trip_keeps_emitted_fields [where w = item_wire and it = it] it
  have 4: "round_trip_item item_wire = Inr (echo_item it)" by simp
  from round_trip_keeps_emitted_fields [where w = bank_wire and this = sample_client and b = b] b
  have 5: "round_trip_bank_transaction sample_client bank_wire = Inr (echo_bank_transaction b)" by simp
  show ?thesis
    using c i p it b
    by (simp add: 1 2 3 4 5 echo_contact_def echo_invoice_def echo_payment_def echo_item_def
        echo_bank_transaction_def kept_string_def)
qed

text \<open>
  C1 as stated fails on a contact whose \<^verbatim>\<open>FirstName\<close> is the empty string:
  \<^verbatim>\<open>FirstName\<close> is a field \<^verbatim>\<open>toWire\<close> can emit, \<^verbatim>\<open>fromWire\<close> reads the empty string, and
  the round trip reads undefined.
\<close>

theorem empty_string_lost_counterexample:
  "map_sum id XeroContact.firstName (mapContact acme_wire) = Inr (Some [])
 \<and> map_sum id XeroContact.firstName (round_trip_contact acme_wire) = Inr None"
proof -
  obtain c where c: "mapContact acme_wire = Inr c" "firstName c = Some []"
    using sample_decodings(1) by blast
  then show ?thesis
    by (simp add: round_trip_contact_def and_then_def contact_round_trip echo_contact_def kept_string_def)
qed


lemma boolean_value [simp]:
  "(if js_boolean b \<noteq> JUndefined then Some (js_boolean b) else None) = map_option JBool b"
  by (cases b) (simp_all add: js_boolean_def)

lemma explicit_booleans:
  "map_of (mapContactToXero c) ''IsSupplier'' = map_option JBool (isSupplier c)"
  "map_of (mapContactToXero c) ''IsCustomer'' = map_option JBool (isCustomer c)"
  "map_of (mapPaymentToXero p) ''IsReconciled'' = map_option JBool (XeroPayment.isReconciled p)"
  "map_of (mapItemToXero it) ''IsTrackedAsInventory'' = map_option JBool (isTrackedAsInventory it)"
  "map_of (mapItemToXero it) ''IsSold'' = map_option JBool (isSold it)"
  "map_of (mapItemToXero it) ''IsPurchased'' = map_option JBool (isPurchased it)"
  unfolding mapContactToXero_def mapPaymentToXero_def mapItemToXero_def if_truthy_def if_defined_def
  by (simp_all add: map_of_exec del: exec.simps)

text \<open>
  C2, as amended. Each \<^verbatim>\<open>toWire\<close> function emits exactly these wire keys: the key of a
  string or number field when the field is truthy (set, and not the empty string or
  zero), the key of a boolean field when it is not undefined, the key of a nested
  object or collection field when it is set. In particular a boolean explicitly set to
  false is present in the output, with the value false.
\<close>

theorem sparse_wire_keys:
  "keys (mapContactToXero c) = sent_contact_keys c
 \<and> keys (mapInvoiceToXero i) = sent_invoice_keys i
 \<and> keys (mapPaymentToXero p) = sent_payment_keys p
 \<and> keys (mapItemToXero it) = sent_item_keys it
 \<and> keys (mapBankTransactionToXero b) = sent_bank_transaction_keys b
 \<and> (isSupplier c = Some False \<longrightarrow> map_of (mapContactToXero c) ''IsSupplier'' = Some (JBool False))
 \<and> (isCustomer c = Some False \<longrightarrow> map_of (mapContactToXero c) ''IsCustomer'' = Some (JBool False))
 \<and> (XeroPayment.isReconciled p = Some False \<longrightarrow> map_of (mapPaymentToXero p) ''IsReconciled'' = Some (JBool False))
 \<and> (isTrackedAsInventory it = Some False \<longrightarrow> map_of (mapItemToXero it) ''IsTrackedAsInventory'' = Some (JBool False))
 \<and> (isSold it = Some False \<longrightarrow> map_of (mapItemToXero it) ''IsSold'' = Some (JBool False))
 \<and> (isPurchased it = Some False \<longrightarrow> map_of (mapItemToXero it) ''IsPurchased'' = Some (JBool False))"
  by (simp add: contact_keys invoice_keys payment_keys item_keys bank_transaction_keys explicit_booleans)

theorem sparse_wire_keys_witness:
  "keys (mapContactToXero blank_contact) = {''IsSupplier'', ''IsCustomer''}
 \<and> map_of (mapContactToXero blank_contact) ''IsSupplier'' = Some (JBool False)
 \<and> map_of (mapContactToXero blank_contact) ''IsCustomer'' = Some (JBool False)
 \<and> keys (mapPaymentToXero zero_payment) = {''IsReconciled''}
 \<and> map_of (mapPaymentToXero zero_payment) ''IsReconciled'' = Some (JBool False)
 \<and> keys (mapItemToXero untracked_item) = {''Code'', ''IsTrackedAsInventory'', ''IsSold'', ''IsPurchased''}
 \<and> map_of (mapItemToXero untracked_item) ''IsTrackedAsInventory'' = Some (JBool False)
 \<and> map_of (mapItemToXero untracked_item) ''IsSold'' = Some (JBool False)
 \<and> map_of (mapItemToXero untracked_item) ''IsPurchased'' = Some (JBool False)"
  using sparse_wire_keys [where c = blank_contact and p = zero_payment and it = untracked_item]
  by (simp add: blank_contact_def no_contact_def zero_payment_def no_payment_def untracked_item_def
      no_item_def sent_contact_keys_def sent_payment_keys_def sent_item_keys_def key_if_def
      truthy_string_def truthy_number_def insert_commute)

text \<open>
  C2 as stated fails on a payment whose amount is 0 and on a contact whose name is the
  empty string: the field is not undefined, and its key is missing from the output.
\<close>

theorem falsy_field_dropped_counterexample:
  "XeroPayment.amount zero_payment = Some 0 \<and> ''Amount'' \<notin> keys (mapPaymentToXero zero_payment)
 \<and> XeroContact.name blank_contact = Some [] \<and> ''Name'' \<notin> keys (mapContactToXero blank_contact)"
  by (simp add: payment_keys contact_keys blank_contact_def no_contact_def zero_payment_def no_payment_def
      sent_contact_keys_def sent_payment_keys_def key_if_def truthy_string_def truthy_number_def)


lemma stringify_defined:
  "v \<noteq> JUndefined \<Longrightarrow> defined_json (JSON_stringify v)"
  "defined_props (stringify_props kvs)"
  "defined_items (stringify_items xs)"
  by (induction v and kvs and xs rule: JSON_stringify_stringify_props_stringify_items.induct) auto

lemma keys_stringify_props: "keys (stringify_props kvs) \<subseteq> keys kvs"
  by (induction kvs) (auto simp: keys_def)

lemma map_of_stringify_props:
  "map_of kvs k = Some v \<Longrightarrow> v \<noteq> JUndefined \<Longrightarrow> map_of (stringify_props kvs) k = Some (JSON_stringify v)"
  by (induction kvs) (auto split: if_splits)

lemma key_if_mono: "(b \<Longrightarrow> b') \<Longrightarrow> key_if b k \<subseteq> key_if b' k"
  by (auto simp: key_if_def)

lemma sent_supplied:
  "sent_contact_keys c \<subseteq> supplied_contact_keys c"
  "sent_invoice_keys i \<subseteq> supplied_invoice_keys i"
  "sent_item_keys it \<subseteq> supplied_item_keys it"
  "sent_bank_transaction_keys b \<subseteq> supplied_bank_transaction_keys b"
  unfolding sent_contact_keys_def supplied_contact_keys_def sent_invoice_keys_def supplied_invoice_keys_def
    sent_item_keys_def supplied_item_keys_def sent_bank_transaction_keys_def supplied_bank_transaction_keys_def
  by (intro Un_mono key_if_mono; simp add: truthy_string_def)+

lemma keys_update: "keys (AList.update k v kvs) = insert k (keys kvs)"
  by (simp add: keys_def dom_update)

lemma update_calls:
  "snd (updateContact this remote ident c) =
     snd (request this remote (''/Contacts/'' @ ident) (POST (JObj [(''Contacts'', JArr [JObj (mapContactToXero c)])])))"
  "snd (updateInvoice this remote ident i) =
     snd (request this remote (''/Invoices/'' @ ident)
       (POST (JObj [(''Invoices'', JArr [JObj (AList.update ''InvoiceID'' (JStr ident) (mapInvoiceToXero i))])])))"
  "snd (updateItem this remote ident it) =
     snd (request this remote (''/Items/'' @ ident) (POST (JObj [(''Items'', JArr [JObj (mapItemToXero it)])])))"
  "snd (updateBankTransaction this remote ident b) =
     snd (request this remote (''/BankTransactions/'' @ ident)
       (POST (JObj [(''BankTransactions'', JArr [JObj (AList.update ''BankTransactionID'' (JStr ident) (mapBankTransactionToXero b))])])))"
  by (simp_all add: updateContact_def updateInvoice_def updateItem_def updateBankTransaction_def
      split_request Let_def)

lemma post_body:
  "RequestInit.body (POST (JObj [(key, JArr [JObj kvs])])) = Some (JObj [(key, JArr [JObj (stringify_props kvs)])])"
  by (simp add: POST_def)

lemma distinct_exec: "distinct (map fst r) \<Longrightarrow> distinct (map fst (exec as r))"
  by (induction as r rule: exec.induct) (auto simp: distinct_update)

lemma map_of_stringify_distinct:
  "distinct (map fst kvs) \<Longrightarrow>
   map_of (stringify_props kvs) k =
     (case map_of kvs k of None \<Rightarrow> None | Some v \<Rightarrow> if v = JUndefined then None else Some (JSON_stringify v))"
proof (induction kvs)
  case Nil then show ?case by simp
next
  case (Cons kv kvs)
  obtain k' v where kv: "kv = (k', v)" by (cases kv)
  with Cons.prems have n: "k' \<notin> fst ` set kvs" and d: "distinct (map fst kvs)" by auto
  from n have "map_of kvs k' = None" by (simp add: map_of_eq_None_iff)
  with Cons.IH [OF d] kv show ?case by (auto split: option.splits)
qed

lemma keys_stringify_Cons:
  "keys (stringify_props ((k, v) # kvs)) = key_if (v \<noteq> JUndefined) k \<union> keys (stringify_props kvs)"
  by (simp add: keys_def key_if_def)

lemma keys_stringify_Nil: "keys (stringify_props []) = {}"
  by (simp add: keys_def)

lemma js_defined:
  "(js_string x \<noteq> JUndefined) = (x \<noteq> None)"
  "(js_number n \<noteq> JUndefined) = (n \<noteq> None)"
  "(js_boolean b \<noteq> JUndefined) = (b \<noteq> None)"
  "(js_array xs \<noteq> JUndefined) = (xs \<noteq> None)"
  "(js_object kvs \<noteq> JUndefined) = (kvs \<noteq> None)"
  "(js_array xs = JUndefined) = (xs = None)"
  "(js_object kvs = JUndefined) = (kvs = None)"
  by (auto simp: js_string_def js_number_def js_boolean_def js_array_def js_object_def split: option.splits)

lemma stringify_items_map:
  "(\<And>x. f x \<noteq> JUndefined) \<Longrightarrow> stringify_items (map f xs) = map (\<lambda>x. JSON_stringify (f x)) xs"
  by (induction xs) simp_all

lemma list_all2_map_same: "list_all2 P (map f xs) xs = (\<forall>x \<in> set xs. P (f x) x)"
  by (simp add: list_all2_map1 list_all2_same)

lemma invoice_line_within: "line_within (JSON_stringify (invoice_line li)) li"
  unfolding invoice_line_def line_within_def supplied_line_keys_def sent_as_given_def
  by (auto simp add: keys_stringify_Cons keys_stringify_Nil js_defined map_of_stringify_distinct
      key_if_def simp del: stringify_props.simps)

lemma bank_line_within: "line_within (JSON_stringify (bank_transaction_line li)) li"
  unfolding bank_transaction_line_def line_within_def supplied_line_keys_def sent_as_given_def
  by (auto simp add: keys_stringify_Cons keys_stringify_Nil js_defined map_of_stringify_distinct
      key_if_def simp del: stringify_props.simps)

lemma mapper_distinct:
  "distinct (map fst (mapContactToXero c))"
  "distinct (map fst (AList.update k v (mapInvoiceToXero i)))"
  "distinct (map fst (mapItemToXero it))"
  "distinct (map fst (AList.update k v (mapBankTransactionToXero b)))"
  by (simp_all add: mapContactToXero_def mapInvoiceToXero_def mapItemToXero_def mapBankTransactionToXero_def
      distinct_exec distinct_update del: exec.simps)

lemma mapper_nested:
  "map_of (mapContactToXero c) ''Addresses'' = (if addresses c = None then None else Some (js_array (addresses c)))"
  "map_of (mapContactToXero c) ''Phones'' = (if phones c = None then None else Some (js_array (phones c)))"
  "map_of (mapContactToXero c) ''ContactPersons'' = (if contactPersons c = None then None else Some (js_array (contactPersons c)))"
  "map_of (mapContactToXero c) ''PaymentTerms'' = (if paymentTerms c = None then None else Some (js_object (paymentTerms c)))"
  "map_of (mapInvoiceToXero i) ''Contact'' = map_option (\<lambda>r. contact_reference (Some r)) (XeroInvoice.contact i)"
  "map_of (mapInvoiceToXero i) ''LineItems'' = map_option (\<lambda>lis. JArr (map invoice_line lis)) (XeroInvoice.lineItems i)"
  "map_of (mapItemToXero it) ''PurchaseDetails'' = map_option (\<lambda>d. purchase_details (Some d)) (purchaseDetails it)"
  "map_of (mapItemToXero it) ''SalesDetails'' = map_option (\<lambda>d. sales_details (Some d)) (salesDetails it)"
  "map_of (mapBankTransactionToXero b) ''Contact'' = map_option (\<lambda>r. contact_reference (Some r)) (XeroBankTransaction.contact b)"
  "map_of (mapBankTransactionToXero b) ''BankAccount'' = map_option (\<lambda>a. bank_account_reference (Some a)) (bankAccount b)"
  "map_of (mapBankTransactionToXero b) ''LineItems'' = map_option (\<lambda>lis. JArr (map bank_transaction_line lis)) (XeroBankTransaction.lineItems b)"
  by (auto simp add: mapContactToXero_def mapInvoiceToXero_def mapItemToXero_def mapBankTransactionToXero_def
      map_of_exec if_truthy_def if_defined_def guard_keys is_set_def simp del: exec.simps)

lemma line_defined: "invoice_line li \<noteq> JUndefined" "bank_transaction_line li \<noteq> JUndefined"
  by (simp_all add: invoice_line_def bank_transaction_line_def)

lemma reference_within:
  "map_of props k = Some (JSON_stringify (contact_reference (Some r))) \<Longrightarrow>
     nested_within props k (Some (supplied_contact_ref_keys r))"
  "map_of props k = Some (JSON_stringify (bank_account_reference (Some a))) \<Longrightarrow>
     nested_within props k (Some (supplied_bank_account_keys a))"
  "map_of props k = Some (JSON_stringify (purchase_details (Some pd))) \<Longrightarrow>
     nested_within props k (Some (supplied_purchase_keys pd))"
  "map_of props k = Some (JSON_stringify (sales_details (Some sd))) \<Longrightarrow>
     nested_within props k (Some (supplied_sales_keys sd))"
  unfolding nested_within_def contact_reference_def bank_account_reference_def purchase_details_def sales_details_def
    supplied_contact_ref_keys_def supplied_bank_account_keys_def supplied_purchase_keys_def supplied_sales_keys_def
  by (auto simp add: keys_stringify_Cons keys_stringify_Nil js_defined key_if_def simp del: stringify_props.simps)

lemma reference_defined:
  "contact_reference (Some r) \<noteq> JUndefined" "bank_account_reference (Some a) \<noteq> JUndefined"
  "purchase_details (Some pd) \<noteq> JUndefined" "sales_details (Some sd) \<noteq> JUndefined"
  by (simp_all add: contact_reference_def bank_account_reference_def purchase_details_def sales_details_def)

lemma contact_nested:
  "sent_as_given (stringify_props (mapContactToXero c)) ''Addresses'' (js_array (addresses c))"
  "sent_as_given (stringify_props (mapContactToXero c)) ''Phones'' (js_array (phones c))"
  "sent_as_given (stringify_props (mapContactToXero c)) ''ContactPersons'' (js_array (contactPersons c))"
  "sent_as_given (stringify_props (mapContactToXero c)) ''PaymentTerms'' (js_object (paymentTerms c))"
  by (simp_all add: sent_as_given_def map_of_stringify_distinct mapper_distinct mapper_nested js_defined)

lemma invoice_nested:
  "nested_within (stringify_props (AList.update ''InvoiceID'' v (mapInvoiceToXero i))) ''Contact''
     (map_option supplied_contact_ref_keys (XeroInvoice.contact i))"
  "lines_within (stringify_props (AList.update ''InvoiceID'' v (mapInvoiceToXero i))) (XeroInvoice.lineItems i)"
proof -
  let ?props = "stringify_props (AList.update ''InvoiceID'' v (mapInvoiceToXero i))"
  have c: "map_of ?props ''Contact'' = map_option (\<lambda>r. JSON_stringify (contact_reference (Some r))) (XeroInvoice.contact i)"
    by (simp add: map_of_stringify_distinct mapper_distinct update_conv' mapper_nested reference_defined
        split: option.splits)
  show "nested_within ?props ''Contact'' (map_option supplied_contact_ref_keys (XeroInvoice.contact i))"
  proof (cases "XeroInvoice.contact i")
    case None with c show ?thesis by (simp add: nested_within_def)
  next
    case (Some r) with c show ?thesis by (simp add: reference_within)
  qed
  have l: "map_of ?props ''LineItems'' =
      map_option (\<lambda>lis. JArr (map (\<lambda>li. JSON_stringify (invoice_line li)) lis)) (XeroInvoice.lineItems i)"
    by (simp add: map_of_stringify_distinct mapper_distinct update_conv' mapper_nested stringify_items_map line_defined
        split: option.splits)
  show "lines_within ?props (XeroInvoice.lineItems i)"
    by (cases "XeroInvoice.lineItems i") (simp_all add: lines_within_def l list_all2_map_same invoice_line_within)
qed

lemma item_nested:
  "nested_within (stringify_props (mapItemToXero it)) ''PurchaseDetails'' (map_option supplied_purchase_keys (purchaseDetails it))"
  "nested_within (stringify_props (mapItemToXero it)) ''SalesDetails'' (map_option supplied_sales_keys (salesDetails it))"
proof -
  let ?props = "stringify_props (mapItemToXero it)"
  have p: "map_of ?props ''PurchaseDetails'' = map_option (\<lambda>d. JSON_stringify (purchase_details (Some d))) (purchaseDetails it)"
    by (simp add: map_of_stringify_distinct mapper_distinct mapper_nested reference_defined split: option.splits)
  have s: "map_of ?props ''SalesDetails'' = map_option (\<lambda>d. JSON_stringify (sales_details (Some d))) (salesDetails it)"
    by (simp add: map_of_stringify_distinct mapper_distinct mapper_nested reference_defined split: option.splits)
  show "nested_within ?props ''PurchaseDetails'' (map_option supplied_purchase_keys (purchaseDetails it))"
  proof (cases "purchaseDetails it")
    case None with p show ?thesis by (simp add: nested_within_def)
  next
    case (Some d) with p show ?thesis by (simp add: reference_within)
  qed
  show "nested_within ?props ''SalesDetails'' (map_option supplied_sales_keys (salesDetails it))"
  proof (cases "salesDetails it")
    case None with s show ?thesis by (simp add: nested_within_def)
  next
    case (Some d) with s show ?thesis by (simp add: reference_within)
  qed
qed

lemma bank_transaction_nested:
  "nested_within (stringify_props (AList.update ''BankTransactionID'' v (mapBankTransactionToXero b))) ''Contact''
     (map_option supplied_contact_ref_keys (XeroBankTransaction.contact b))"
  "nested_within (stringify_props (AList.update ''BankTransactionID'' v (mapBankTransactionToXero b))) ''BankAccount''
     (map_option supplied_bank_account_keys (bankAccount b))"
  "lines_within (stringify_props (AList.update ''BankTransactionID'' v (mapBankTransactionToXero b)))
     (XeroBankTransaction.lineItems b)"
proof -
  let ?props = "stringify_props (AList.update ''BankTransactionID'' v (mapBankTransactionToXero b))"
  have c: "map_of ?props ''Contact'' = map_option (\<lambda>r. JSON_stringify (contact_reference (Some r))) (XeroBankTransaction.contact b)"
    by (simp add: map_of_stringify_distinct mapper_distinct update_conv' mapper_nested reference_defined
        split: option.splits)
  have a: "map_of ?props ''BankAccount'' = map_option (\<lambda>r. JSON_stringify (bank_account_reference (Some r))) (bankAccount b)"
    by (simp add: map_of_stringify_distinct mapper_distinct update_conv' mapper_nested reference_defined
        split: option.splits)
  have l: "map_of ?props ''LineItems'' =
      map_option (\<lambda>lis. JArr (map (\<lambda>li. JSON_stringify (bank_transaction_line li)) lis)) (XeroBankTransaction.lineItems b)"
    by (simp add: map_of_stringify_distinct mapper_distinct update_conv' mapper_nested stringify_items_map line_defined
        split: option.splits)
  show "nested_within ?props ''Contact'' (map_option supplied_contact_ref_keys (XeroBankTransaction.contact b))"
  proof (cases "XeroBankTransaction.contact b")
    case None with c show ?thesis by (simp add: nested_within_def)
  next
    case (Some r) with c show ?thesis by (simp add: reference_within)
  qed
  show "nested_within ?props ''BankAccount'' (map_option supplied_bank_account_keys (bankAccount b))"
  proof (cases "bankAccount b")
    case None with a show ?thesis by (simp add: nested_within_def)
  next
    case (Some r) with a show ?thesis by (simp add: reference_within)
  qed
  show "lines_within ?props (XeroBankTransaction.lineItems b)"
    by (cases "XeroBankTransaction.lineItems b") (simp_all add: lines_within_def l list_all2_map_same bank_line_within)
qed

text \<open>
  C8. Every request an update operation sends carries a JSON body with one wire record.
  Each key of that record is the key of a field the caller supplied, or the identifier
  key that \<open>updateInvoice\<close> and \<open>updateBankTransaction\<close> set from the identifier
  argument. The same holds inside the record: a contact or bank account reference, the
  purchase and sales details and every line item are sent only when supplied and hold
  only keys of fields supplied in them, the line items one for one; addresses, phones,
  contact persons, payment terms and a line's tracking are sent as the caller gave them.
  No property at any depth of the record is undefined.
\<close>

theorem update_payload_only_supplied:
  "(\<forall>req \<in> set (snd (updateContact this remote ident c)).
      \<exists>props. HttpRequest.body req = Some (JObj [(''Contacts'', JArr [JObj props])])
        \<and> keys props \<subseteq> supplied_contact_keys c \<and> defined_props props
        \<and> sent_as_given props ''Addresses'' (js_array (addresses c))
        \<and> sent_as_given props ''Phones'' (js_array (phones c))
        \<and> sent_as_given props ''ContactPersons'' (js_array (contactPersons c))
        \<and> sent_as_given props ''PaymentTerms'' (js_object (paymentTerms c)))
 \<and> (\<forall>req \<in> set (snd (updateInvoice this remote ident i)).
      \<exists>props. HttpRequest.body req = Some (JObj [(''Invoices'', JArr [JObj props])])
        \<and> keys props \<subseteq> insert ''InvoiceID'' (supplied_invoice_keys i)
        \<and> map_of props ''InvoiceID'' = Some (JStr ident) \<and> defined_props props
        \<and> nested_within props ''Contact'' (map_option supplied_contact_ref_keys (XeroInvoice.contact i))
        \<and> lines_within props (XeroInvoice.lineItems i))
 \<and> (\<forall>req \<in> set (snd (updateItem this remote ident it)).
      \<exists>props. HttpRequest.body req = Some (JObj [(''Items'', JArr [JObj props])])
        \<and> keys props \<subseteq> supplied_item_keys it \<and> defined_props props
        \<and> nested_within props ''PurchaseDetails'' (map_option supplied_purchase_keys (purchaseDetails it))
        \<and> nested_within props ''SalesDetails'' (map_option supplied_sales_keys (salesDetails it)))
 \<and> (\<forall>req \<in> set (snd (updateBankTransaction this remote ident b)).
      \<exists>props. HttpRequest.body req = Some (JObj [(''BankTransactions'', JArr [JObj props])])
        \<and> keys props \<subseteq> insert ''BankTransactionID'' (supplied_bank_transaction_keys b)
        \<and> map_of props ''BankTransactionID'' = Some (JStr ident) \<and> defined_props props
        \<and> nested_within props ''Contact'' (map_option supplied_contact_ref_keys (XeroBankTransaction.contact b))
        \<and> nested_within props ''BankAccount'' (map_option supplied_bank_account_keys (bankAccount b))
        \<and> lines_within props (XeroBankTransaction.lineItems b))"
proof (intro conjI ballI)
  fix req assume "req \<in> set (snd (updateContact this remote ident c))"
  then have "HttpRequest.body req = Some (JObj [(''Contacts'', JArr [JObj (stringify_props (mapContactToXero c))])])"
    by (auto simp: update_calls post_body dest: request_calls)
  moreover have "keys (stringify_props (mapContactToXero c)) \<subseteq> supplied_contact_keys c"
    using keys_stringify_props [of "mapContactToXero c"] sent_supplied(1) [of c] by (simp add: contact_keys)
  ultimately show "\<exists>props. HttpRequest.body req = Some (JObj [(''Contacts'', JArr [JObj props])])
        \<and> keys props \<subseteq> supplied_contact_keys c \<and> defined_props props
        \<and> sent_as_given props ''Addresses'' (js_array (addresses c))
        \<and> sent_as_given props ''Phones'' (js_array (phones c))
        \<and> sent_as_given props ''ContactPersons'' (js_array (contactPersons c))
        \<and> sent_as_given props ''PaymentTerms'' (js_object (paymentTerms c))"
    by (simp add: stringify_defined contact_nested)
next
  fix req assume "req \<in> set (snd (updateInvoice this remote ident i))"
  let ?x = "AList.update ''InvoiceID'' (JStr ident) (mapInvoiceToXero i)"
  from \<open>req \<in> _\<close> have "HttpRequest.body req = Some (JObj [(''Invoices'', JArr [JObj (stringify_props ?x)])])"
    by (auto simp: update_calls post_body dest: request_calls)
  moreover have "keys (stringify_props ?x) \<subseteq> insert ''InvoiceID'' (supplied_invoice_keys i)"
    using keys_stringify_props [of ?x] sent_supplied(2) [of i] by (auto simp: keys_update invoice_keys)
  moreover have "map_of (stringify_props ?x) ''InvoiceID'' = Some (JStr ident)"
    using map_of_stringify_props [of ?x "''InvoiceID''" "JStr ident"] by (simp add: update_conv')
  ultimately show "\<exists>props. HttpRequest.body req = Some (JObj [(''Invoices'', JArr [JObj props])])
        \<and> keys props \<subseteq> insert ''InvoiceID'' (supplied_invoice_keys i)
        \<and> map_of props ''InvoiceID'' = Some (JStr ident) \<and> defined_props props
        \<and> nested_within props ''Contact'' (map_option supplied_contact_ref_keys (XeroInvoice.contact i))
        \<and> lines_within props (XeroInvoice.lineItems i)"
    by (simp add: stringify_defined invoice_nested)
next
  fix req assume "req \<in> set (snd (updateItem this remote ident it))"
  then have "HttpRequest.body req = Some (JObj [(''Items'', JArr [JObj (stringify_props (mapItemToXero it))])])"
    by (auto simp: update_calls post_body dest: request_calls)
  moreover have "keys (stringify_props (mapItemToXero it)) \<subseteq> supplied_item_keys it"
    using keys_stringify_props [of "mapItemToXero it"] sent_supplied(3) [of it] by (simp add: item_keys)
  ultimately show "\<exists>props. HttpRequest.body req = Some (JObj [(''Items'', JArr [JObj props])])
        \<and> keys props \<subseteq> supplied_item_keys it \<and> defined_props props
        \<and> nested_within props ''PurchaseDetails'' (map_option supplied_purchase_keys (purchaseDetails it))
        \<and> nested_within props ''SalesDetails'' (map_option supplied_sales_keys (salesDetails it))"
    by (simp add: stringify_defined item_nested)
next
  fix req assume "req \<in> set (snd (updateBankTransaction this remote ident b))"
  let ?x = "AList.update ''BankTransactionID'' (JStr ident) (mapBankTransactionToXero b)"
  from \<open>req \<in> _\<close> have "HttpRequest.body req = Some (JObj [(''BankTransactions'', JArr [JObj (stringify_props ?x)])])"
    by (auto simp: update_calls post_body dest: request_calls)
  moreover have "keys (stringify_props ?x) \<subseteq> insert ''BankTransactionID'' (supplied_bank_transaction_keys b)"
    using keys_stringify_props [of ?x] sent_supplied(4) [of b] by (auto simp: keys_update bank_transaction_keys)
  moreover have "map_of (stringify_props ?x) ''BankTransactionID'' = Some (JStr ident)"
    using map_of_stringify_props [of ?x "''BankTransactionID''" "JStr ident"] by (simp add: update_conv')
  ultimately show "\<exists>props. HttpRequest.body req = Some (JObj [(''BankTransactions'', JArr [JObj props])])
        \<and> keys props \<subseteq> insert ''BankTransactionID'' (supplied_bank_transaction_keys b)
        \<and> map_of props ''BankTransactionID'' = Some (JStr ident) \<and> defined_props props
        \<and> nested_within props ''Contact'' (map_option supplied_contact_ref_keys (XeroBankTransaction.contact b))
        \<and> nested_within props ''BankAccount'' (map_option supplied_bank_account_keys (bankAccount b))
        \<and> lines_within props (XeroBankTransaction.lineItems b)"
    by (simp add: stringify_defined bank_transaction_nested)
qed


lemmas js_defs = js_string_def js_number_def js_boolean_def js_array_def js_object_def

theorem update_payload_only_supplied_witness:
  "map HttpRequest.body (snd (updateContact sample_client (answering 200 JNull) ''c-1'' addressed_contact))
     = [Some (JObj [(''Contacts'', JArr [JObj
          [(''Name'', JStr ''Acme Ltd''), (''Addresses'', JArr [JObj [(''City'', JStr ''Leeds'')]])]])])]
 \<and> map HttpRequest.body (snd (updateInvoice sample_client (answering 200 JNull) ''i-1'' lined_invoice))
     = [Some (JObj [(''Invoices'', JArr [JObj
          [(''Contact'', JObj [(''ContactID'', JStr ''c-1'')]),
           (''Reference'', JStr ''PO-7''),
           (''LineItems'', JArr [JObj [(''Description'', JStr ''Widget''), (''Quantity'', JNum 2)]]),
           (''InvoiceID'', JStr ''i-1'')]])])]
 \<and> map HttpRequest.body (snd (updateItem sample_client (answering 200 JNull) ''it-1'' priced_item))
     = [Some (JObj [(''Items'', JArr [JObj
          [(''Code'', JStr ''W-1''), (''PurchaseDetails'', JObj [(''UnitPrice'', JNum 3)]),
           (''IsSold'', JBool False)]])])]
 \<and> map HttpRequest.body (snd (updateBankTransaction sample_client (answering 200 JNull) ''b-1'' spend_transaction))
     = [Some (JObj [(''BankTransactions'', JArr [JObj
          [(''BankAccount'', JObj [(''AccountID'', JStr ''a-1'')]),
           (''Date'', JStr ''2024-02-01''),
           (''LineItems'', JArr [JObj [(''Description'', JStr ''Fee''), (''UnitAmount'', JNum 10)]]),
           (''BankTransactionID'', JStr ''b-1'')]])])]"
proof -
  have b1: "map HttpRequest.body (snd (updateContact sample_client (answering 200 JNull) ''c-1'' addressed_contact))
     = [Some (JObj [(''Contacts'', JArr [JObj
          [(''Name'', JStr ''Acme Ltd''), (''Addresses'', JArr [JObj [(''City'', JStr ''Leeds'')]])]])])]"
    by (simp add: update_calls sample_answer POST_def mapContactToXero_def addressed_contact_def
        no_contact_def if_truthy_def if_defined_def js_defs)
  have b2: "map HttpRequest.body (snd (updateInvoice sample_client (answering 200 JNull) ''i-1'' lined_invoice))
     = [Some (JObj [(''Invoices'', JArr [JObj
          [(''Contact'', JObj [(''ContactID'', JStr ''c-1'')]),
           (''Reference'', JStr ''PO-7''),
           (''LineItems'', JArr [JObj [(''Description'', JStr ''Widget''), (''Quantity'', JNum 2)]]),
           (''InvoiceID'', JStr ''i-1'')]])])]"
    by (simp add: update_calls sample_answer POST_def mapInvoiceToXero_def lined_invoice_def
        no_invoice_def no_line_def invoice_line_def contact_reference_def is_set_def if_truthy_def if_defined_def js_defs)
  have b3: "map HttpRequest.body (snd (updateItem sample_client (answering 200 JNull) ''it-1'' priced_item))
     = [Some (JObj [(''Items'', JArr [JObj
          [(''Code'', JStr ''W-1''), (''PurchaseDetails'', JObj [(''UnitPrice'', JNum 3)]),
           (''IsSold'', JBool False)]])])]"
    by (simp add: update_calls sample_answer POST_def mapItemToXero_def priced_item_def
        no_item_def purchase_details_def sales_details_def is_set_def if_truthy_def if_defined_def js_defs)
  have b4: "map HttpRequest.body (snd (updateBankTransaction sample_client (answering 200 JNull) ''b-1'' spend_transaction))
     = [Some (JObj [(''BankTransactions'', JArr [JObj
          [(''BankAccount'', JObj [(''AccountID'', JStr ''a-1'')]),
           (''Date'', JStr ''2024-02-01''),
           (''LineItems'', JArr [JObj [(''Description'', JStr ''Fee''), (''UnitAmount'', JNum 10)]]),
           (''BankTransactionID'', JStr ''b-1'')]])])]"
    by (simp add: update_calls sample_answer POST_def mapBankTransactionToXero_def spend_transaction_def
        no_bank_transaction_def no_line_def bank_transaction_line_def contact_reference_def
        bank_account_reference_def is_set_def if_truthy_def if_defined_def js_defs)
  note t1 = update_payload_only_supplied [where this = sample_client and remote = "answering 200 JNull"
      and ident = "''c-1''" and c = addressed_contact, THEN conjunct1]
  note t2 = update_payload_only_supplied [where this = sample_client and remote = "answering 200 JNull"
      and ident = "''i-1''" and i = lined_invoice, THEN conjunct2, THEN conjunct1]
  note t3 = update_payload_only_supplied [where this = sample_client and remote = "answering 200 JNull"
      and ident = "''it-1''" and it = priced_item, THEN conjunct2, THEN conjunct2, THEN conjunct1]
  note t4 = update_payload_only_supplied [where this = sample_client and remote = "answering 200 JNull"
      and ident = "''b-1''" and b = spend_transaction, THEN conjunct2, THEN conjunct2, THEN conjunct2]
  have 1: "\<exists>req. req \<in> set (snd (updateContact sample_client (answering 200 JNull) ''c-1'' addressed_contact))"
    by (simp add: update_calls sample_answer)
  with t1 have 1: "\<exists>props. keys props \<subseteq> supplied_contact_keys addressed_contact" by blast
  have 2: "\<exists>req. req \<in> set (snd (updateInvoice sample_client (answering 200 JNull) ''i-1'' lined_invoice))"
    by (simp add: update_calls sample_answer)
  with t2 have 2: "\<exists>props. lines_within props (XeroInvoice.lineItems lined_invoice)" by blast
  have 3: "\<exists>req. req \<in> set (snd (updateItem sample_client (answering 200 JNull) ''it-1'' priced_item))"
    by (simp add: update_calls sample_answer)
  with t3 have 3: "\<exists>props. keys props \<subseteq> supplied_item_keys priced_item" by blast
  have 4: "\<exists>req. req \<in> set (snd (updateBankTransaction sample_client (answering 200 JNull) ''b-1'' spend_transaction))"
    by (simp add: update_calls sample_answer)
  with t4 have 4: "\<exists>props. lines_within props (XeroBankTransaction.lineItems spend_transaction)" by blast
  from 1 2 3 4 b1 b2 b3 b4 show ?thesis by blast
qed

end
